theory Spec2Isabelle
  imports Complex_Main "HOL-Library.AList" "HOL-Library.Sublist"
begin

section \<open>JavaScript strings, numbers and plain objects\<close>

text \<open>
  A JavaScript string is modelled as a \<^typ>\<open>string\<close>, one \<^typ>\<open>char\<close> per code unit, so
  \<open>s.substring(0, n)\<close> is \<^term>\<open>take n s\<close> and \<open>s.length\<close> is \<^term>\<open>length s\<close>.
  A \<^typ>\<open>char\<close> has eight bits: the strings of the model are those of code units below 256.
  A value of type \<open>string | null | undefined\<close> is a \<^typ>\<open>string option\<close>.
\<close>

text \<open>Truthiness of a string (\<open>if (s)\<close>): every string but the empty one.\<close>

definition truthy :: "string \<Rightarrow> bool" where
  "truthy s = (s \<noteq> [])"

text \<open>Truthiness of \<open>string | null | undefined\<close>.\<close>

fun truthy_opt :: "string option \<Rightarrow> bool" where
  "truthy_opt None = False"
| "truthy_opt (Some s) = truthy s"

text \<open>\<open>a || d\<close> for an optional string \<open>a\<close> and a string \<open>d\<close>.\<close>

fun or_else :: "string option \<Rightarrow> string \<Rightarrow> string" where
  "or_else None d = d"
| "or_else (Some s) d = (if truthy s then s else d)"

text \<open>\<open>xs.join(sep)\<close> on an array of strings.\<close>

fun join :: "string \<Rightarrow> string list \<Rightarrow> string" where
  "join sep [] = []"
| "join sep [x] = x"
| "join sep (x # y # ys) = x @ sep @ join sep (y # ys)"

text \<open>\<open>s.split(c)\<close> for a one-character separator: never the empty array.\<close>

fun split_char :: "char \<Rightarrow> string \<Rightarrow> string list" where
  "split_char c [] = [[]]"
| "split_char c (x # xs) =
     (if x = c then [] # split_char c xs
      else (case split_char c xs of
              [] \<Rightarrow> [[x]]
            | y # ys \<Rightarrow> (x # y) # ys))"

text \<open>\<open>String(n)\<close> for a non-negative integer such as an array length or an index.\<close>

definition digit_char :: "nat \<Rightarrow> char" where
  "digit_char d = ''0123456789'' ! d"

function nat_to_string :: "nat \<Rightarrow> string" where
  "nat_to_string n =
     (if n < 10 then [digit_char n]
      else nat_to_string (n div 10) @ [digit_char (n mod 10)])"
  by pat_completeness auto
termination
  by (relation "measure id") auto

declare nat_to_string.simps [simp del]

text \<open>
  A plain object (\<open>Record<string, T>\<close>, created by \<open>{}\<close>) is the list of its own properties
  in creation order, with no key twice. A lookup of an own property is
  \<^term>\<open>map_of obj k\<close>. Every such object inherits the members of \<open>Object.prototype\<close>.
\<close>

type_synonym 'v js_object = "(string \<times> 'v) list"

definition object_prototype_names :: "string list" where
  "object_prototype_names =
     [''constructor'', ''__proto__'', ''hasOwnProperty'', ''isPrototypeOf'',
      ''propertyIsEnumerable'', ''toLocaleString'', ''toString'', ''valueOf'',
      ''__defineGetter__'', ''__defineSetter__'', ''__lookupGetter__'', ''__lookupSetter__'']"

definition inherited_name :: "string \<Rightarrow> bool" where
  "inherited_name k = (k \<in> set object_prototype_names)"

text \<open>
  All inherited members are functions, except \<open>__proto__\<close>: that one is an accessor, whose
  getter gives \<open>Object.prototype\<close> and whose setter changes the prototype when it is given
  an object or \<open>null\<close>, and does nothing otherwise.
\<close>

definition inherited_function :: "string \<Rightarrow> bool" where
  "inherited_function k = (inherited_name k \<and> k \<noteq> ''__proto__'')"

text \<open>
  An assignment \<open>obj[k] = v\<close> to a plain object: the value is replaced where the key is an
  own property, and the property is appended otherwise. The members inherited from
  \<open>Object.prototype\<close> are writable data properties, which the assignment shadows by an own
  property; for the key \<open>__proto__\<close> the assignment calls the inherited setter, and the own
  properties stay as they are.
\<close>

definition assign :: "string \<Rightarrow> 'v \<Rightarrow> 'v js_object \<Rightarrow> 'v js_object" where
  "assign k v obj = (if k = ''__proto__'' then obj else AList.update k v obj)"

text \<open>
  The truthiness of a read \<open>obj[k]\<close> from a plain object with string values: the own
  property when there is one, else the inherited member, which is a function or
  \<open>Object.prototype\<close>, and \<open>undefined\<close> when there is neither.
\<close>

definition truthy_member :: "string js_object \<Rightarrow> string \<Rightarrow> bool" where
  "truthy_member obj k = (case map_of obj k of Some v \<Rightarrow> truthy v | None \<Rightarrow> inherited_name k)"

text \<open>
  \<open>Object.entries(obj)\<close> lists the properties whose key is an array index (a canonical decimal
  numeral below \<open>2^32 - 1\<close>) first, in ascending numeric order, and then the other properties
  in creation order.
\<close>

definition is_digit :: "char \<Rightarrow> bool" where
  "is_digit c = (c \<in> set ''0123456789'')"

definition digit_value :: "char \<Rightarrow> int" where
  "digit_value c = of_char c - 48"

definition digits_to_int :: "string \<Rightarrow> int" where
  "digits_to_int s = foldl (\<lambda>a c. 10 * a + digit_value c) 0 s"

definition is_array_index :: "string \<Rightarrow> bool" where
  "is_array_index k =
     (k \<noteq> [] \<and> list_all is_digit k \<and> (k = ''0'' \<or> hd k \<noteq> CHR ''0'')
      \<and> digits_to_int k < 4294967295)"

definition entries :: "'v js_object \<Rightarrow> (string \<times> 'v) list" where
  "entries obj =
     sort_key (\<lambda>p. digits_to_int (fst p)) (filter (\<lambda>p. is_array_index (fst p)) obj)
     @ filter (\<lambda>p. \<not> is_array_index (fst p)) obj"

text \<open>
  JavaScript numbers are the IEEE 754 doubles. A finite double is the real number it
  denotes; the two zeros are one value here, since \<open>String\<close> and \<open>JSON.stringify\<close> print
  both as \<open>0\<close>.
\<close>

datatype jsnumber = NaN | PosInfinity | NegInfinity | Num real

text \<open>
  The double of the decimal \<open>n * 10 ^ k\<close> with \<open>n\<close> not negative: the value \<open>a / b\<close> is
  rounded to the nearest multiple of \<open>2 ^ q\<close>, ties to the even multiple, where \<open>q\<close> leaves 53
  bits for a value in the normal range and is \<open>- 1074\<close> below it; a value that is or rounds
  to \<open>2 ^ 1024\<close> or more gives \<open>Infinity\<close>.
\<close>

function bit_length :: "int \<Rightarrow> int" where
  "bit_length n = (if n \<le> 0 then 0 else 1 + bit_length (n div 2))"
  by pat_completeness auto
termination
  by (relation "measure nat") auto

declare bit_length.simps [simp del]

text \<open>\<open>a / b \<ge> 2 ^ e\<close>, and the largest \<open>e\<close> for which this holds, for positive \<open>a\<close> and \<open>b\<close>.\<close>

definition at_least_pow2 :: "int \<Rightarrow> int \<Rightarrow> int \<Rightarrow> bool" where
  "at_least_pow2 a b e = (if e \<ge> 0 then a \<ge> b * 2 ^ nat e else a * 2 ^ nat (- e) \<ge> b)"

definition floor_log2 :: "int \<Rightarrow> int \<Rightarrow> int" where
  "floor_log2 a b =
     (let d = bit_length a - bit_length b in if at_least_pow2 a b d then d else d - 1)"

text \<open>The integer nearest to \<open>a / b\<close>, the even one of two that are equally near.\<close>

definition round_half_even :: "int \<Rightarrow> int \<Rightarrow> int" where
  "round_half_even a b =
     (let d = a div b; r = a mod b
      in if 2 * r < b then d else if 2 * r > b then d + 1 else if even d then d else d + 1)"

definition to_double :: "int \<Rightarrow> int \<Rightarrow> jsnumber" where
  "to_double n k =
     (if n = 0 then Num 0
      else
        (let a = (if k \<ge> 0 then n * 10 ^ nat k else n);
             b = (if k \<ge> 0 then 1 else 10 ^ nat (- k));
             e = floor_log2 a b
         in if e \<ge> 1024 then PosInfinity
            else
              (let q = max e (- 1022) - 52;
                   r = (if q \<ge> 0 then round_half_even a (b * 2 ^ nat q)
                        else round_half_even (a * 2 ^ nat (- q)) b)
               in if q \<ge> 0 \<and> r * 2 ^ nat q \<ge> 2 ^ 1024 then PosInfinity
                  else Num (if q \<ge> 0 then of_int (r * 2 ^ nat q)
                            else of_int r / 2 ^ nat (- q)))))"

text \<open>
  The values of \<open>Record<string, unknown>\<close> that the extractors build: strings, numbers,
  booleans, \<open>null\<close>, arrays and nested objects.
\<close>

datatype jsvalue =
    JNull
  | JBool bool
  | JNumber jsnumber
  | JString string
  | JArray "jsvalue list"
  | JObject "(string \<times> jsvalue) list"

text \<open>\<open>typeof v === "object"\<close>: objects, arrays and \<open>null\<close>.\<close>

fun typeof_object :: "jsvalue \<Rightarrow> bool" where
  "typeof_object JNull = True"
| "typeof_object (JArray _) = True"
| "typeof_object (JObject _) = True"
| "typeof_object _ = False"

text \<open>
  The ways in which a call does not return a value that this model follows. \<open>TypeError\<close> is
  the exception thrown by the runtime. \<open>Unmodelled\<close> is no exception: the call has assigned to
  a property of \<open>Object.prototype\<close> or to a static method of \<open>Object\<close>, and what the runtime
  and the rest of the call do after that is not described here.
\<close>

datatype js_error = TypeError | Unmodelled

text \<open>
  What the formatter takes from the runtime: the clock, \<open>JSON.stringify\<close> (which throws on
  a value it cannot serialise) and the conversion of a number to a string.
\<close>

record host =
  now_toISOString :: string
  json_stringify :: "jsvalue \<Rightarrow> js_error + string"
  json_stringify_indent2 :: "jsvalue js_object \<Rightarrow> js_error + string"
  number_to_string :: "jsnumber \<Rightarrow> string"

text \<open>\<open>String(v)\<close>.\<close>

fun to_String :: "host \<Rightarrow> jsvalue \<Rightarrow> string" where
  "to_String h (JString s) = s"
| "to_String h (JBool b) = (if b then ''true'' else ''false'')"
| "to_String h (JNumber n) = number_to_string h n"
| "to_String h JNull = ''null''"
| "to_String h (JArray xs) =
     join '','' (map (\<lambda>x. case x of JNull \<Rightarrow> [] | _ \<Rightarrow> to_String h x) xs)"
| "to_String h (JObject ps) = ''[object Object]''"

text \<open>Sequencing of computations that may throw.\<close>

fun and_then :: "js_error + 'a \<Rightarrow> ('a \<Rightarrow> js_error + 'b) \<Rightarrow> js_error + 'b" where
  "and_then (Inl e) f = Inl e"
| "and_then (Inr x) f = f x"

section \<open>The issue record\<close>

record StackFrame =
  filename :: string
  lineNo :: string
  function_name :: string
  context_text :: string
  isSystem :: bool
  isExpanded :: bool

record StackTrace =
  frames :: "StackFrame list option"
  raw :: "string option"
  exceptionValue :: "string option"

record Breadcrumb =
  category :: "string option"
  type :: "string option"
  message :: "string option"
  timestamp :: "string option"
  level :: "string option"
  raw :: "string option"

record Timestamps =
  firstSeen :: "string option"
  lastSeen :: "string option"

record SentryIssueData =
  url :: string
  projectName :: string
  issueId :: string
  shortId :: "string option"
  title :: string
  errorMessage :: "string option"
  route :: "string option"
  eventCount :: string
  userCount :: string
  environment :: "string option"
  release :: "string option"
  priority :: "string option"
  status :: "string option"
  level :: "string option"
  timestamps :: "Timestamps option"
  userInfo :: "string js_object option"
  stackTrace :: "StackTrace option"
  breadcrumbs :: "Breadcrumb list option"
  httpRequest :: "string js_object option"
  tags :: "string js_object option"
  contexts :: "string js_object js_object option"
  additionalData :: "jsvalue js_object option"

text \<open>
  An optional boolean property of \<open>FormatOptions\<close>: the property is missing, it is present
  with the value \<open>undefined\<close>, or it holds a boolean.
\<close>

datatype flag = Missing | Undefined | Flag bool

record FormatOptions =
  includeBreadcrumbs :: flag
  includeContexts :: flag
  includeTags :: flag

text \<open>
  The effective option \<open>{ p: options.p !== false, ...options }.p\<close>: the default is overwritten
  by the spread whenever the property exists in \<open>options\<close>, also when it is \<open>undefined\<close>.
\<close>

fun effective :: "flag \<Rightarrow> bool" where
  "effective Missing = True"
| "effective Undefined = False"
| "effective (Flag b) = b"

section \<open>The formatter\<close>

text \<open>Format a key-value pair as a bullet point with bold key.\<close>

fun formatKeyValue :: "string \<Rightarrow> string option \<Rightarrow> string" where
  "formatKeyValue key None = []"
| "formatKeyValue key (Some v) = ''- **'' @ key @ '':** '' @ v"

text \<open>
  Format an object as a bullet list. The value of each property is shown by
  \<open>JSON.stringify\<close> when it is an object and by \<open>String\<close> otherwise.
\<close>

definition displayValue :: "host \<Rightarrow> jsvalue \<Rightarrow> js_error + string" where
  "displayValue h v = (if typeof_object v then json_stringify h v else Inr (to_String h v))"

fun formatAsList_loop :: "host \<Rightarrow> (string \<times> jsvalue) list \<Rightarrow> string \<Rightarrow> js_error + string" where
  "formatAsList_loop h [] list = Inr list"
| "formatAsList_loop h ((key, v) # rest) list =
     and_then (displayValue h v)
       (\<lambda>d. formatAsList_loop h rest (list @ ''- **'' @ key @ '':** '' @ d @ [CHR 0x0A]))"

fun formatAsList :: "host \<Rightarrow> jsvalue js_object option \<Rightarrow> js_error + string" where
  "formatAsList h None = Inr []"
| "formatAsList h (Some obj) =
     (if obj = [] then Inr [] else formatAsList_loop h (entries obj) [])"

text \<open>A \<open>Record<string, string>\<close> passed where a \<open>Record<string, unknown>\<close> is expected.\<close>

definition as_values :: "string js_object \<Rightarrow> jsvalue js_object" where
  "as_values obj = map (\<lambda>p. (fst p, JString (snd p))) obj"

text \<open>
  Format tags with nesting by prefix: \<open>runtime.name\<close> nests under \<open>runtime\<close>.
  The first loop sorts the tags into \<open>grouped\<close> and \<open>standalone\<close>, two objects created by
  \<open>{}\<close>. For a prefix that is not an own property of \<open>grouped\<close>, the test \<open>!grouped[prefix]\<close>
  reads the member inherited from \<open>Object.prototype\<close>: where there is one no group is created,
  and \<open>grouped[prefix][subKey] = value\<close> assigns to that member, a built-in function or
  \<open>Object.prototype\<close> itself. The third component of the state holds the properties that
  the loop has created on built-in functions in this way.
\<close>

definition includes_dot :: "string \<Rightarrow> bool" where
  "includes_dot key = (CHR ''.'' \<in> set key)"

record tag_sorting =
  grouped :: "string js_object js_object"
  standalone :: "string js_object"
  onBuiltin :: "string js_object js_object"

text \<open>The static methods of \<open>Object\<close>, which is \<open>Object.prototype.constructor\<close>.\<close>

definition object_static_names :: "string list" where
  "object_static_names =
     [''assign'', ''create'', ''defineProperties'', ''defineProperty'', ''entries'', ''freeze'',
      ''fromEntries'', ''getOwnPropertyDescriptor'', ''getOwnPropertyDescriptors'',
      ''getOwnPropertyNames'', ''getOwnPropertySymbols'', ''getPrototypeOf'', ''groupBy'',
      ''hasOwn'', ''is'', ''isExtensible'', ''isFrozen'', ''isSealed'', ''keys'',
      ''preventExtensions'', ''seal'', ''setPrototypeOf'', ''values'']"

text \<open>
  The assignment \<open>f[subKey] = value\<close> to the built-in function \<open>f\<close> that \<open>Object.prototype\<close>
  has under the name \<open>fname\<close>, in a module, whose code is strict. The properties \<open>name\<close> and
  \<open>length\<close> of a function and the property \<open>prototype\<close> of \<open>Object\<close> are not writable, and
  the setters of \<open>caller\<close> and \<open>arguments\<close>, inherited from \<open>Function.prototype\<close>, throw: the
  assignment throws. For \<open>__proto__\<close> the inherited setter does nothing with a string. The
  static methods of \<open>Object\<close> are writable. Any other key becomes a new enumerable property
  of the function, or is one already. Such a property stays on the function after the
  call; a call is taken to start with the built-in functions as the runtime creates them.
\<close>

definition assign_builtin :: "string \<Rightarrow> string \<Rightarrow> string \<Rightarrow> tag_sorting
    \<Rightarrow> js_error + tag_sorting" where
  "assign_builtin fname subKey v st =
     (if subKey = ''__proto__'' then Inr st
      else if subKey = ''name'' \<or> subKey = ''length''
              \<or> subKey = ''caller'' \<or> subKey = ''arguments''
              \<or> (fname = ''constructor'' \<and> subKey = ''prototype'')
      then Inl TypeError
      else if fname = ''constructor'' \<and> subKey \<in> set object_static_names
      then Inl Unmodelled
      else Inr (st\<lparr>onBuiltin :=
                     AList.update fname
                       (AList.update subKey v
                          (case map_of (onBuiltin st) fname of None \<Rightarrow> [] | Some ps \<Rightarrow> ps))
                       (onBuiltin st)\<rparr>))"

definition group_tag :: "string \<times> string \<Rightarrow> tag_sorting \<Rightarrow> js_error + tag_sorting" where
  "group_tag kv st =
     (let key = fst kv; v = snd kv in
      if includes_dot key then
        (let parts = split_char CHR ''.'' key;
             prefix = hd parts;
             subKey = join ''.'' (tl parts)
         in case map_of (grouped st) prefix of
              Some sub \<Rightarrow>
                Inr (st\<lparr>grouped := AList.update prefix (assign subKey v sub) (grouped st)\<rparr>)
            | None \<Rightarrow>
                if prefix = ''__proto__''
                then (if subKey = ''__proto__'' then Inr st else Inl Unmodelled)
                else if inherited_name prefix then assign_builtin prefix subKey v st
                else Inr (st\<lparr>grouped :=
                               AList.update prefix (assign subKey v []) (grouped st)\<rparr>))
      else Inr (st\<lparr>standalone := assign key v (standalone st)\<rparr>))"

text \<open>A loop whose body may throw.\<close>

fun fold_throwing :: "('a \<Rightarrow> 's \<Rightarrow> js_error + 's) \<Rightarrow> 'a list \<Rightarrow> 's \<Rightarrow> js_error + 's" where
  "fold_throwing f [] s = Inr s"
| "fold_throwing f (x # xs) s = and_then (f x s) (fold_throwing f xs)"

text \<open>The sub-bullets of one group.\<close>

definition subBullets :: "string js_object \<Rightarrow> string" where
  "subBullets subTags =
     fold (\<lambda>p out. out @ ''  - '' @ fst p @ '': '' @ snd p @ [CHR 0x0A]) (entries subTags) []"

text \<open>
  The second loop: the standalone tags, each with the group of the same name. For a key
  without a group that names an inherited function, \<open>grouped[key]\<close> is that function, and
  \<open>Object.entries\<close> gives the properties that the first loop has created on it.
\<close>

definition standalone_step :: "tag_sorting \<Rightarrow> string \<times> string
    \<Rightarrow> string \<times> string list \<Rightarrow> string \<times> string list" where
  "standalone_step st kv acc =
     (let key = fst kv; v = snd kv; output = fst acc; outputtedPrefixes = snd acc in
      case map_of (grouped st) key of
        Some subTags \<Rightarrow>
          (output @ ''- **'' @ key @ '':** '' @ v @ [CHR 0x0A] @ subBullets subTags,
           key # outputtedPrefixes)
      | None \<Rightarrow>
          if inherited_function key
          then (output @ ''- **'' @ key @ '':** '' @ v @ [CHR 0x0A]
                  @ subBullets (case map_of (onBuiltin st) key of
                                  None \<Rightarrow> [] | Some ps \<Rightarrow> ps),
                key # outputtedPrefixes)
          else (output @ ''- **'' @ key @ '':** '' @ v @ [CHR 0x0A], outputtedPrefixes))"

text \<open>The third loop: the groups that no standalone tag has put out.\<close>

definition grouped_step :: "string list \<Rightarrow> string \<times> string js_object \<Rightarrow> string \<Rightarrow> string" where
  "grouped_step outputtedPrefixes g output =
     (let prefix = fst g; subTags = snd g in
      if prefix \<notin> set outputtedPrefixes
      then output @ ''- **'' @ prefix @ '':**'' @ [CHR 0x0A] @ subBullets subTags
      else output)"

fun formatTagsNested :: "string js_object option \<Rightarrow> js_error + string" where
  "formatTagsNested None = Inr []"
| "formatTagsNested (Some tgs) =
     (if tgs = [] then Inr []
      else
        and_then
          (fold_throwing group_tag (entries tgs)
             \<lparr>grouped = [], standalone = [], onBuiltin = []\<rparr>)
          (\<lambda>st. let r = fold (standalone_step st) (entries (standalone st)) ([], [])
                 in Inr (fold (grouped_step (snd r)) (entries (grouped st)) (fst r))))"

text \<open>
  Format additional data as a fenced JSON block; the bullet list is the fallback when
  \<open>JSON.stringify\<close> throws.
\<close>

fun formatAdditionalData :: "host \<Rightarrow> jsvalue js_object option \<Rightarrow> js_error + string" where
  "formatAdditionalData h None = Inr []"
| "formatAdditionalData h (Some d) =
     (if d = [] then Inr []
      else (case json_stringify_indent2 h d of
              Inr js \<Rightarrow> Inr (''```json'' @ [CHR 0x0A] @ js @ [CHR 0x0A] @ ''```'')
            | Inl e \<Rightarrow> formatAsList h (Some d)))"

text \<open>
  Format the stack trace. The marker of an application frame is the arrow U+2192 and a
  space; the arrow is written here as its three UTF-8 bytes.
\<close>

definition app_marker :: string where
  "app_marker = [CHR 0xE2, CHR 0x86, CHR 0x92, CHR '' '']"

definition formatFrame :: "nat \<times> StackFrame \<Rightarrow> string \<Rightarrow> string" where
  "formatFrame p output =
     (let index = fst p; frame = snd p;
          location = (if truthy (filename frame)
                      then filename frame
                           @ (if truthy (lineNo frame) then '':'' @ lineNo frame else [])
                      else ''unknown'');
          func = (if truthy (function_name frame) then function_name frame
                  else ''<anonymous>'');
          marker = (if isSystem frame then ''  '' else app_marker);
          output1 = output @ marker @ nat_to_string (index + 1) @ ''. '' @ func @ '' at ''
                    @ location @ [CHR 0x0A]
      in if truthy (context_text frame)
         then output1 @ ''      '' @ take 200 (context_text frame) @ [CHR 0x0A]
         else output1)"

definition formatFrames :: "StackFrame list \<Rightarrow> string \<Rightarrow> string" where
  "formatFrames fs output =
     fold formatFrame (enumerate 0 fs) (output @ ''```'' @ [CHR 0x0A]) @ ''```''"

fun formatStackTrace :: "StackTrace option \<Rightarrow> string" where
  "formatStackTrace None = []"
| "formatStackTrace (Some st) =
     (let output = (case exceptionValue st of
                      None \<Rightarrow> []
                    | Some ev \<Rightarrow> if truthy ev
                                then ''**Exception:** '' @ ev @ [CHR 0x0A, CHR 0x0A] else [])
      in if truthy_opt (StackTrace.raw st)
         then output @ ''```'' @ [CHR 0x0A] @ the (StackTrace.raw st) @ [CHR 0x0A] @ ''```''
         else (case frames st of
                 None \<Rightarrow> output
               | Some fs \<Rightarrow> if length fs > 0 then formatFrames fs output else output))"

text \<open>Format breadcrumbs as a list: the body of the \<open>forEach\<close>, then the function.\<close>

definition formatBreadcrumb :: "Breadcrumb \<Rightarrow> string \<Rightarrow> string" where
  "formatBreadcrumb bc output =
     (let time = or_else (timestamp bc) [];
          category = or_else (category bc) [];
          level = (if truthy_opt (type bc) then the (type bc)
                   else or_else (Breadcrumb.level bc) []);
          message = (if truthy_opt (message bc) then take 100 (the (message bc)) else [])
      in output @ ''- '' @ (if truthy time then ''['' @ time @ '']'' else []) @ '' ''
         @ (if truthy category then ''**'' @ category @ ''**'' else []) @ '' ''
         @ (if truthy level then ''('' @ level @ '')'' else []) @ '' ''
         @ message @ [CHR 0x0A])"

text \<open>\<open>xs.slice(-n)\<close>: the last \<open>n\<close> elements, or all of them when there are fewer.\<close>

definition slice_last :: "nat \<Rightarrow> 'a list \<Rightarrow> 'a list" where
  "slice_last n xs = drop (length xs - n) xs"

fun formatBreadcrumbs :: "Breadcrumb list option \<Rightarrow> string" where
  "formatBreadcrumbs None = []"
| "formatBreadcrumbs (Some bcs) =
     (if length bcs = 0 then []
      else if length bcs = 1 \<and> truthy_opt (Breadcrumb.raw (bcs ! 0))
      then ''```'' @ [CHR 0x0A] @ the (Breadcrumb.raw (bcs ! 0)) @ [CHR 0x0A] @ ''```''
      else (let recentBreadcrumbs = slice_last 15 bcs
            in fold formatBreadcrumb recentBreadcrumbs []))"

text \<open>Format contexts: one bold name and one bullet list for each non-empty context.\<close>

fun formatContexts_loop :: "host \<Rightarrow> (string \<times> string js_object) list \<Rightarrow> string
    \<Rightarrow> js_error + string" where
  "formatContexts_loop h [] output = Inr output"
| "formatContexts_loop h ((contextName, contextData) # rest) output =
     (if length contextData > 0
      then and_then (formatAsList h (Some (as_values contextData)))
             (\<lambda>l. formatContexts_loop h rest
                     (output @ [CHR 0x0A] @ ''**'' @ contextName @ '':**'' @ [CHR 0x0A] @ l))
      else formatContexts_loop h rest output)"

fun formatContexts :: "host \<Rightarrow> string js_object js_object option \<Rightarrow> js_error + string" where
  "formatContexts h None = Inr []"
| "formatContexts h (Some cs) =
     (if cs = [] then Inr [] else formatContexts_loop h (entries cs) [])"

text \<open>
  The main formatting function. \<open>markdownLines\<close> is the array \<open>lines\<close> at the end of
  the function; the result is its elements joined by newlines.
\<close>

definition overviewLines :: "SentryIssueData \<Rightarrow> string list" where
  "overviewLines d =
     (if truthy (projectName d) then [formatKeyValue ''Project'' (Some (projectName d))] else [])
     @ (if truthy_opt (shortId d) then [formatKeyValue ''Issue ID'' (shortId d)]
        else if truthy (issueId d) then [formatKeyValue ''Issue ID'' (Some (issueId d))]
        else [])
     @ (if truthy_opt (status d) then [formatKeyValue ''Status'' (status d)] else [])
     @ (if truthy_opt (priority d) then [formatKeyValue ''Priority'' (priority d)] else [])
     @ (if truthy_opt (SentryIssueData.level d)
        then [formatKeyValue ''Level'' (SentryIssueData.level d)] else [])
     @ (if truthy_opt (environment d)
        then [formatKeyValue ''Environment'' (environment d)] else [])
     @ (if truthy_opt (release d) then [formatKeyValue ''Release'' (release d)] else [])
     @ (if truthy (eventCount d) then [formatKeyValue ''Events'' (Some (eventCount d))] else [])
     @ (if truthy (userCount d)
        then [formatKeyValue ''Users Affected'' (Some (userCount d))] else [])
     @ (if truthy_opt (route d) then [formatKeyValue ''Route/URL'' (route d)] else [])
     @ (case timestamps d of
          None \<Rightarrow> []
        | Some ts \<Rightarrow>
            (if truthy_opt (firstSeen ts)
             then [formatKeyValue ''First Seen'' (firstSeen ts)] else [])
            @ (if truthy_opt (lastSeen ts)
               then [formatKeyValue ''Last Seen'' (lastSeen ts)] else []))"

definition headerTitle :: "SentryIssueData \<Rightarrow> string" where
  "headerTitle d =
     (if truthy_opt (shortId d) then the (shortId d) @ '': '' @ title d else title d)"

definition headLines :: "SentryIssueData \<Rightarrow> string list" where
  "headLines d =
     [''## '' @ headerTitle d, [], ''[View in Sentry]('' @ url d @ '')'', [], ''---'', [],
      ''### Issue Overview'', []]"

definition errorMessageLines :: "SentryIssueData \<Rightarrow> string list" where
  "errorMessageLines d =
     (if truthy_opt (errorMessage d)
      then [''### Error Message'', [], ''```'', the (errorMessage d), ''```'', []]
      else [])"

definition stackTraceLines :: "SentryIssueData \<Rightarrow> string list" where
  "stackTraceLines d =
     (case stackTrace d of
        None \<Rightarrow> []
      | Some st \<Rightarrow> [''### Stack Trace'', [], formatStackTrace (Some st), []])"

definition breadcrumbLines :: "bool \<Rightarrow> SentryIssueData \<Rightarrow> string list" where
  "breadcrumbLines enabled d =
     (case breadcrumbs d of
        None \<Rightarrow> []
      | Some bcs \<Rightarrow>
          if enabled \<and> length bcs \<noteq> 0
          then [''### Breadcrumbs ('' @ nat_to_string (length bcs) @ '' entries)'', [],
                formatBreadcrumbs (Some bcs), []]
          else [])"

definition listSection :: "host \<Rightarrow> string \<Rightarrow> string js_object option
    \<Rightarrow> js_error + string list" where
  "listSection h heading obj =
     (case obj of
        None \<Rightarrow> Inr []
      | Some r \<Rightarrow>
          if length r > 0
          then and_then (formatAsList h (Some (as_values r))) (\<lambda>l. Inr [heading, [], l, []])
          else Inr [])"

definition tagsLines :: "bool \<Rightarrow> SentryIssueData \<Rightarrow> js_error + string list" where
  "tagsLines enabled d =
     (case tags d of
        None \<Rightarrow> Inr []
      | Some t \<Rightarrow>
          if enabled \<and> length t > 0
          then and_then (formatTagsNested (Some t)) (\<lambda>n. Inr [''### Tags'', [], n, []])
          else Inr [])"

definition contextsLines :: "host \<Rightarrow> bool \<Rightarrow> SentryIssueData \<Rightarrow> js_error + string list" where
  "contextsLines h enabled d =
     (case contexts d of
        None \<Rightarrow> Inr []
      | Some cs \<Rightarrow>
          if enabled \<and> length cs > 0
          then and_then (formatContexts h (Some cs)) (\<lambda>c. Inr [''### Contexts'', [], c, []])
          else Inr [])"

definition additionalDataLines :: "host \<Rightarrow> SentryIssueData \<Rightarrow> js_error + string list" where
  "additionalDataLines h d =
     (case additionalData d of
        None \<Rightarrow> Inr []
      | Some a \<Rightarrow>
          if length a > 0
          then and_then (formatAdditionalData h (Some a))
                 (\<lambda>j. Inr [''### Additional Data'', [], j, []])
          else Inr [])"

definition footerLines :: "host \<Rightarrow> string list" where
  "footerLines h =
     [''---'',
      ''*Extracted from Sentry on '' @ hd (split_char CHR ''T'' (now_toISOString h)) @ ''*'']"

definition markdownLines :: "host \<Rightarrow> SentryIssueData \<Rightarrow> FormatOptions
    \<Rightarrow> js_error + string list" where
  "markdownLines h d options =
     (let lines = headLines d @ overviewLines d @ [[]] @ errorMessageLines d
                  @ stackTraceLines d
                  @ breadcrumbLines (effective (includeBreadcrumbs options)) d
      in and_then (listSection h ''### HTTP Request'' (httpRequest d)) (\<lambda>http.
         and_then (listSection h ''### User Information'' (userInfo d)) (\<lambda>user.
         and_then (tagsLines (effective (includeTags options)) d) (\<lambda>tgs.
         and_then (contextsLines h (effective (includeContexts options)) d) (\<lambda>ctx.
         and_then (additionalDataLines h d) (\<lambda>extra.
           Inr (lines @ http @ user @ tgs @ ctx @ extra @ footerLines h)))))))"

definition formatToJiraMarkdown :: "host \<Rightarrow> SentryIssueData \<Rightarrow> FormatOptions
    \<Rightarrow> js_error + string" where
  "formatToJiraMarkdown h d options =
     and_then (markdownLines h d options) (\<lambda>lines. Inr (join [CHR 0x0A] lines))"

section \<open>The document\<close>

text \<open>
  The page is a tree of elements and text nodes. An element has its tag name in lower case,
  its attributes and its child nodes in document order.
\<close>

datatype node = Element string "(string \<times> string) list" "node list" | Text string

fun is_element :: "node \<Rightarrow> bool" where
  "is_element (Element tg attrs cs) = True"
| "is_element (Text s) = False"

fun tagName :: "node \<Rightarrow> string" where
  "tagName (Element tg attrs cs) = tg"
| "tagName (Text s) = []"

fun getAttribute :: "node \<Rightarrow> string \<Rightarrow> string option" where
  "getAttribute (Element tg attrs cs) name = map_of attrs name"
| "getAttribute (Text s) name = None"

fun childNodes :: "node \<Rightarrow> node list" where
  "childNodes (Element tg attrs cs) = cs"
| "childNodes (Text s) = []"

text \<open>\<open>el.children\<close>: the child nodes that are elements.\<close>

definition children :: "node \<Rightarrow> node list" where
  "children n = filter is_element (childNodes n)"

text \<open>\<open>el.textContent\<close>: the text of all text nodes below the element, in document order.\<close>

fun textContent :: "node \<Rightarrow> string" where
  "textContent (Text s) = s"
| "textContent (Element tg attrs cs) = concat (map textContent cs)"

text \<open>The elements below a node, in document order; the node itself is not among them.\<close>

fun descendants :: "node \<Rightarrow> node list" where
  "descendants (Text s) = []"
| "descendants (Element tg attrs cs) =
     concat (map (\<lambda>c. (if is_element c then [c] else []) @ descendants c) cs)"

text \<open>
  White space as \<open>String.prototype.trim\<close> and the class \<open>\s\<close> of regular expressions see it:
  tab, line feed, vertical tab, form feed, carriage return, space and no-break space.
\<close>

definition is_space :: "char \<Rightarrow> bool" where
  "is_space c = (c \<in> set [CHR 0x09, CHR 0x0A, CHR 0x0B, CHR 0x0C, CHR 0x0D, CHR 0x20, CHR 0xA0])"

definition trim :: "string \<Rightarrow> string" where
  "trim s = rev (dropWhile is_space (rev (dropWhile is_space s)))"

text \<open>
  Selectors. A compound selector is a list of simple selectors that an element must match
  all; a selector list (the commas of CSS) is a list of compound selectors of which an
  element must match one.
\<close>

datatype simple_selector =
    Tag string
  | Id string
  | Class string
  | Attr string string
  | AttrPrefix string string

text \<open>The class names of an element: its \<open>class\<close> attribute split at white space.\<close>

fun split_where :: "(char \<Rightarrow> bool) \<Rightarrow> string \<Rightarrow> string list" where
  "split_where P [] = [[]]"
| "split_where P (x # xs) =
     (if P x then [] # split_where P xs
      else (case split_where P xs of
              [] \<Rightarrow> [[x]]
            | y # ys \<Rightarrow> (x # y) # ys))"

definition words :: "string \<Rightarrow> string list" where
  "words s =
     filter (\<lambda>w. w \<noteq> [])
       (split_where (\<lambda>c. c \<in> set [CHR 0x09, CHR 0x0A, CHR 0x0C, CHR 0x0D, CHR 0x20]) s)"

definition classList :: "node \<Rightarrow> string list" where
  "classList n = (case getAttribute n ''class'' of None \<Rightarrow> [] | Some v \<Rightarrow> words v)"

fun matches_simple :: "node \<Rightarrow> simple_selector \<Rightarrow> bool" where
  "matches_simple n (Tag tg) = (tagName n = tg)"
| "matches_simple n (Id i) = (getAttribute n ''id'' = Some i)"
| "matches_simple n (Class c) = (c \<in> set (classList n))"
| "matches_simple n (Attr name v) = (getAttribute n name = Some v)"
| "matches_simple n (AttrPrefix name v) =
     (case getAttribute n name of None \<Rightarrow> False | Some w \<Rightarrow> v \<noteq> [] \<and> take (length v) w = v)"

definition matches :: "simple_selector list list \<Rightarrow> node \<Rightarrow> bool" where
  "matches sel n = list_ex (\<lambda>compound. list_all (matches_simple n) compound) sel"

text \<open>\<open>el.querySelectorAll(sel)\<close> and \<open>el.querySelector(sel)\<close>, in document order.\<close>

definition querySelectorAll :: "simple_selector list list \<Rightarrow> node \<Rightarrow> node list" where
  "querySelectorAll sel el = filter (matches sel) (descendants el)"

definition querySelector :: "simple_selector list list \<Rightarrow> node \<Rightarrow> node option" where
  "querySelector sel el = List.find (matches sel) (descendants el)"

text \<open>
  \<open>el.querySelector(":scope > div > div")\<close>: the first \<open>div\<close> child of a \<open>div\<close> child of
  the element.
\<close>

definition querySelector_scope_div_div :: "node \<Rightarrow> node option" where
  "querySelector_scope_div_div el =
     List.find (\<lambda>n. tagName n = ''div'')
       (concat (map children (filter (\<lambda>n. tagName n = ''div'') (children el))))"

section \<open>DOM helpers\<close>

text \<open>Get the value of a tag element, handling nested structures.
  The selector list is \<open>span[data-test-id="loaded-device-name"], a,
  [data-sentry-element="TagLinkText"] a\<close>; its last alternative selects \<open>a\<close> elements only,
  which the second one selects already.\<close>

definition getTagValue :: "node option \<Rightarrow> string" where
  "getTagValue valueEl =
     (case valueEl of
        None \<Rightarrow> []
      | Some el \<Rightarrow>
          (case querySelector [[Tag ''span'', Attr ''data-test-id'' ''loaded-device-name''],
                               [Tag ''a'']] el of
             Some nestedEl \<Rightarrow> trim (textContent nestedEl)
           | None \<Rightarrow> trim (textContent el)))"

text \<open>
  \<open>parseFloat\<close>: leading white space is skipped, and the longest prefix of the rest that is a
  decimal literal (a sign, then \<open>Infinity\<close> or digits with an optional fraction and an
  optional exponent) gives the number, rounded to a double; without such a prefix the
  result is \<open>NaN\<close>.
\<close>

definition exponent_part :: "string \<Rightarrow> int" where
  "exponent_part r =
     (case r of
        [] \<Rightarrow> 0
      | c # r1 \<Rightarrow>
          if c = CHR ''e'' \<or> c = CHR ''E''
          then (let negative = (r1 \<noteq> [] \<and> hd r1 = CHR ''-'');
                    r2 = (if r1 \<noteq> [] \<and> (hd r1 = CHR ''-'' \<or> hd r1 = CHR ''+'')
                          then tl r1 else r1);
                    ds = takeWhile is_digit r2
                in if ds = [] then 0
                   else if negative then - digits_to_int ds else digits_to_int ds)
          else 0)"

definition negate :: "jsnumber \<Rightarrow> jsnumber" where
  "negate x =
     (case x of
        NaN \<Rightarrow> NaN | PosInfinity \<Rightarrow> NegInfinity | NegInfinity \<Rightarrow> PosInfinity
      | Num r \<Rightarrow> Num (- r))"

definition parseFloat :: "string \<Rightarrow> jsnumber" where
  "parseFloat s =
     (let t = dropWhile is_space s;
          negative = (t \<noteq> [] \<and> hd t = CHR ''-'');
          u = (if t \<noteq> [] \<and> (hd t = CHR ''-'' \<or> hd t = CHR ''+'') then tl t else t)
      in if take 8 u = ''Infinity'' then (if negative then NegInfinity else PosInfinity)
         else
           (let ip = takeWhile is_digit u;
                r1 = dropWhile is_digit u;
                dotted = (r1 \<noteq> [] \<and> hd r1 = CHR ''.'');
                fp = (if dotted then takeWhile is_digit (tl r1) else []);
                r2 = (if dotted then dropWhile is_digit (tl r1) else r1)
            in if ip = [] \<and> fp = [] then NaN
               else
                 (let x = to_double (digits_to_int (ip @ fp))
                            (exponent_part r2 - int (length fp))
                  in if negative then negate x else x)))"

text \<open>Parse a value element based on its \<open>data-test-id\<close>.\<close>

definition parseValueElement :: "node \<Rightarrow> jsvalue" where
  "parseValueElement valueEl =
     (let testId = getAttribute valueEl ''data-test-id'';
          text = trim (textContent valueEl)
      in if testId = Some ''value-number''
         then (let num = parseFloat text in if num = NaN then JString text else JNumber num)
         else if testId = Some ''value-boolean'' then JBool (text = ''true'')
         else if testId = Some ''value-null'' then JNull
         else JString text)"

text \<open>The content container of a collapsible value: three selectors tried in order.\<close>

definition contentDiv :: "node \<Rightarrow> node option" where
  "contentDiv container =
     (case querySelector [[Attr ''data-sentry-element'' ''CollapsibleContent'']] container of
        Some el \<Rightarrow> Some el
      | None \<Rightarrow>
          (case querySelector [[Attr ''role'' ''group'']] container of
             Some el \<Rightarrow> Some el
           | None \<Rightarrow> querySelector_scope_div_div container))"

subsection \<open>What a query finds is smaller than where it searches\<close>

lemma size_descendants:
  "n \<in> set (descendants m) \<Longrightarrow> size n < size m"
proof (induction m arbitrary: n)
  case (Text s)
  then show ?case by simp
next
  case (Element tg attrs cs)
  from Element.prems obtain c where c: "c \<in> set cs"
    and n: "n = c \<or> n \<in> set (descendants c)"
    by (auto split: if_splits)
  have "size c < size (Element tg attrs cs)"
    using c by (simp add: less_Suc_eq_le size_list_estimation')
  moreover have "size n \<le> size c"
    using n Element.IH [OF c, of n] by auto
  ultimately show ?case by simp
qed

lemma find_Some_set: "List.find P xs = Some x \<Longrightarrow> x \<in> set xs \<and> P x"
  by (induction xs) (auto split: if_splits)

lemma size_querySelector:
  "querySelector sel m = Some n \<Longrightarrow> size n < size m"
  by (auto simp: querySelector_def dest!: find_Some_set intro: size_descendants)

lemma size_children: "c \<in> set (children m) \<Longrightarrow> size c < size m"
  by (cases m) (auto simp: children_def less_Suc_eq_le size_list_estimation')

lemma size_scope_div_div:
  "querySelector_scope_div_div m = Some n \<Longrightarrow> size n < size m"
proof -
  assume "querySelector_scope_div_div m = Some n"
  then have "n \<in> set (concat (map children (filter (\<lambda>n. tagName n = ''div'') (children m))))"
    by (auto simp: querySelector_scope_div_div_def dest!: find_Some_set)
  then obtain c where "c \<in> set (children m)" and "n \<in> set (children c)" by auto
  then have "size n < size c" and "size c < size m" by (auto dest: size_children)
  then show ?thesis by simp
qed

lemma size_contentDiv: "contentDiv m = Some n \<Longrightarrow> size n < size m"
  by (auto simp: contentDiv_def split: option.splits
      dest: size_querySelector size_scope_div_div)

text \<open>
  Parse a collapsible value into an object or an array. The test
  \<open>nestedCollapsible !== container\<close> of \<open>parseObjectValue\<close> always holds, since the nested
  element is found below a child of the content container; it is left out.
\<close>

function (sequential) parseCollapsibleValue :: "node \<Rightarrow> jsvalue"
  and parseObjectValue :: "node \<Rightarrow> jsvalue"
  and parseArrayValue :: "node \<Rightarrow> jsvalue" where
  "parseCollapsibleValue collapsible =
     (if take 1 (trim (textContent collapsible)) = ''[''
      then parseArrayValue collapsible else parseObjectValue collapsible)"
| "parseObjectValue container =
     (case contentDiv container of
        None \<Rightarrow> JString (trim (textContent container))
      | Some content \<Rightarrow>
          (let result =
                 fold (\<lambda>child result.
                         case querySelector [[Attr ''data-sentry-element'' ''ValueObjectKey'']]
                                child of
                           None \<Rightarrow> result
                         | Some keyEl \<Rightarrow>
                             (case querySelector
                                     [[Attr ''data-sentry-component'' ''CollapsibleValue'']]
                                     child of
                                Some nestedCollapsible \<Rightarrow>
                                  assign (trim (textContent keyEl))
                                    (parseCollapsibleValue nestedCollapsible) result
                              | None \<Rightarrow>
                                  (case querySelector [[AttrPrefix ''data-test-id'' ''value-'']]
                                          child of
                                     Some valueEl \<Rightarrow>
                                       assign (trim (textContent keyEl))
                                         (parseValueElement valueEl) result
                                   | None \<Rightarrow> result)))
                   (children content) []
           in if result \<noteq> [] then JObject result
              else JString (trim (textContent container))))"
| "parseArrayValue container =
     (case contentDiv container of
        None \<Rightarrow> JString (trim (textContent container))
      | Some content \<Rightarrow>
          (let result =
                 fold (\<lambda>child result.
                         case querySelector
                                [[Attr ''data-sentry-component'' ''CollapsibleValue'']] child of
                           Some nestedCollapsible \<Rightarrow>
                             result @ [parseCollapsibleValue nestedCollapsible]
                         | None \<Rightarrow>
                             (case querySelector [[AttrPrefix ''data-test-id'' ''value-'']]
                                     child of
                                Some valueEl \<Rightarrow> result @ [parseValueElement valueEl]
                              | None \<Rightarrow> result))
                   (children content) []
           in if length result > 0 then JArray result
              else JString (trim (textContent container))))"
  by pat_completeness auto
termination
  apply (relation "measure (\<lambda>x. case x of Inl c \<Rightarrow> 2 * size c + 1
                                 | Inr (Inl c) \<Rightarrow> 2 * size c
                                 | Inr (Inr c) \<Rightarrow> 2 * size c)")
    apply simp_all
  subgoal for container content child keyEl nested
    using size_contentDiv [of container content] size_children [of child content]
      size_querySelector [of "[[Attr ''data-sentry-component'' ''CollapsibleValue'']]" child nested]
    by simp
  subgoal for container content child nested
    using size_contentDiv [of container content] size_children [of child content]
      size_querySelector [of "[[Attr ''data-sentry-component'' ''CollapsibleValue'']]" child nested]
    by simp
  done

text \<open>
  Recursively extract structured data (objects, arrays, primitives) from DOM elements.
\<close>

definition extractStructuredValue :: "node \<Rightarrow> jsvalue" where
  "extractStructuredValue element =
     (case querySelector [[Attr ''data-sentry-component'' ''CollapsibleValue'']] element of
        Some collapsible \<Rightarrow> parseCollapsibleValue collapsible
      | None \<Rightarrow>
     (case querySelector [[Attr ''data-test-id'' ''value-number'']] element of
        Some numberEl \<Rightarrow>
          (let num = parseFloat (trim (textContent numberEl))
           in if num = NaN then JString (trim (textContent numberEl)) else JNumber num)
      | None \<Rightarrow>
     (case querySelector [[Attr ''data-test-id'' ''value-string''],
                          [Tag ''pre'', Class ''val-string'']] element of
        Some stringEl \<Rightarrow> JString (trim (textContent stringEl))
      | None \<Rightarrow>
     (case querySelector [[Attr ''data-test-id'' ''value-boolean'']] element of
        Some boolEl \<Rightarrow> JBool (trim (textContent boolEl) = ''true'')
      | None \<Rightarrow>
     (case querySelector [[Attr ''data-test-id'' ''value-null'']] element of
        Some nullEl \<Rightarrow> JNull
      | None \<Rightarrow>
          if truthy (trim (textContent element)) then JString (trim (textContent element))
          else JNull)))))"

section \<open>The tags extractor\<close>

text \<open>The module keeps the cache in two variables.\<close>

record tags_module =
  tagsCache :: "string js_object option"
  tagsCacheValid :: bool

definition clearTagsCache :: "tags_module \<Rightarrow> tags_module" where
  "clearTagsCache m = m\<lparr>tagsCache := None, tagsCacheValid := False\<rparr>"

text \<open>
  The key and the value that the body of each loop reads from a row, when the row has both
  a key element and a value element.
\<close>

definition readTagRow :: "node \<Rightarrow> (string \<times> string) option" where
  "readTagRow row =
     (case querySelector [[Attr ''data-sentry-element'' ''TreeKey'']] row of
        None \<Rightarrow> None
      | Some keyEl \<Rightarrow>
          (case querySelector [[Attr ''data-sentry-element'' ''TreeValue'']] row of
             None \<Rightarrow> None
           | Some valueEl \<Rightarrow>
               Some (or_else (getAttribute keyEl ''title'') (trim (textContent keyEl)),
                     getTagValue (Some valueEl))))"

text \<open>The body of the loops over the tag-tree rows and, without a tags section, over the
  highlight rows. The object \<open>tags\<close> is created by \<open>{}\<close>.\<close>

definition addTagRow :: "node \<Rightarrow> string js_object \<Rightarrow> string js_object" where
  "addTagRow row tgs =
     (case readTagRow row of
        None \<Rightarrow> tgs
      | Some kv \<Rightarrow>
          if truthy (fst kv) \<and> truthy (snd kv) then assign (fst kv) (snd kv) tgs
          else tgs)"

text \<open>The body of the loop over the highlight rows when there is a tags section. The test
  \<open>!tags[key]\<close> reads an inherited member where the key is not an own property.\<close>

definition addHighlightRow :: "node \<Rightarrow> string js_object \<Rightarrow> string js_object" where
  "addHighlightRow row tgs =
     (case readTagRow row of
        None \<Rightarrow> tgs
      | Some kv \<Rightarrow>
          if truthy (fst kv) \<and> truthy (snd kv) \<and> \<not> truthy_member tgs (fst kv)
          then assign (fst kv) (snd kv) tgs
          else tgs)"

definition highlightRows :: "node \<Rightarrow> node list" where
  "highlightRows document =
     querySelectorAll [[Attr ''data-test-id'' ''highlight-tag-row'']] document"

definition tagTreeRows :: "node \<Rightarrow> node list" where
  "tagTreeRows tagsSection =
     querySelectorAll [[Attr ''data-test-id'' ''tag-tree-row'']] tagsSection"

definition tagsSection :: "node \<Rightarrow> node option" where
  "tagsSection document =
     querySelector [[Tag ''section'', Id ''tags''], [Attr ''data-test-id'' ''tags'']] document"

text \<open>What \<open>extractTags\<close> does when the cache is not valid: the value it caches.\<close>

definition readTags :: "node \<Rightarrow> string js_object option" where
  "readTags document =
     (case tagsSection document of
        None \<Rightarrow>
          (let tgs = fold addTagRow (highlightRows document) []
           in if length tgs > 0 then Some tgs else None)
      | Some sec \<Rightarrow>
          (let tgs = fold addTagRow (tagTreeRows sec) [];
               tgs = fold addHighlightRow (highlightRows document) tgs
           in if length tgs > 0 then Some tgs else None))"

text \<open>Extract tags from the tags section (cached).\<close>

definition extractTags :: "node \<Rightarrow> tags_module \<Rightarrow> string js_object option \<times> tags_module" where
  "extractTags document m =
     (if tagsCacheValid m then (tagsCache m, m)
      else (let r = readTags document
            in (r, m\<lparr>tagsCache := r, tagsCacheValid := True\<rparr>)))"

text \<open>\<open>tags?.name\<close> as a condition and as a value: the tag when it is a non-empty string.
  The names read in this way are \<open>environment\<close>, \<open>release\<close>, \<open>level\<close>, \<open>transaction\<close> and
  \<open>url\<close>, none of which is inherited.\<close>

definition tagValue :: "string js_object option \<Rightarrow> string \<Rightarrow> string option" where
  "tagValue tgs name =
     (case tgs of
        None \<Rightarrow> None
      | Some t \<Rightarrow> if truthy_opt (map_of t name) then map_of t name else None)"

text \<open>\<open>el?.textContent?.trim() ?? null\<close>.\<close>

definition trimmedText :: "node option \<Rightarrow> string option" where
  "trimmedText el = map_option (\<lambda>e. trim (textContent e)) el"

text \<open>Extract environment from tags or dedicated element.\<close>

definition extractEnvironment :: "node \<Rightarrow> tags_module \<Rightarrow> string option \<times> tags_module" where
  "extractEnvironment document m =
     (let r = extractTags document m
      in case tagValue (fst r) ''environment'' of
           Some v \<Rightarrow> (Some v, snd r)
         | None \<Rightarrow>
             (trimmedText (querySelector [[Attr ''data-test-id'' ''environment''],
                                           [Class ''environment-tag'']] document),
              snd r))"

text \<open>Extract release/version from tags or dedicated element.\<close>

definition extractRelease :: "node \<Rightarrow> tags_module \<Rightarrow> string option \<times> tags_module" where
  "extractRelease document m =
     (let r = extractTags document m
      in case tagValue (fst r) ''release'' of
           Some v \<Rightarrow> (Some v, snd r)
         | None \<Rightarrow>
             (trimmedText (querySelector [[Attr ''data-test-id'' ''release''],
                                           [Class ''release-tag'']] document),
              snd r))"

text \<open>
  The regular expression \<open>/Level:\s*(\w+)/i\<close>: the first group of the leftmost match.
\<close>

definition is_word_char :: "char \<Rightarrow> bool" where
  "is_word_char c =
     (c \<in> set ''abcdefghijklmnopqrstuvwxyzABCDEFGHIJKLMNOPQRSTUVWXYZ0123456789_'')"

definition to_lower :: "char \<Rightarrow> char" where
  "to_lower c =
     (if c \<in> set ''ABCDEFGHIJKLMNOPQRSTUVWXYZ'' then char_of (of_char c + (32::nat)) else c)"

fun match_level :: "string \<Rightarrow> string option" where
  "match_level [] = None"
| "match_level (c # cs) =
     (let w = takeWhile is_word_char (dropWhile is_space (drop 6 (c # cs)))
      in if map to_lower (take 6 (c # cs)) = ''level:'' \<and> w \<noteq> [] then Some w
         else match_level cs)"

text \<open>Extract level (error, warning, info, etc.) from tags.\<close>

definition extractLevel :: "node \<Rightarrow> tags_module \<Rightarrow> string option \<times> tags_module" where
  "extractLevel document m =
     (let r = extractTags document m
      in case tagValue (fst r) ''level'' of
           Some v \<Rightarrow> (Some v, snd r)
         | None \<Rightarrow>
             (case querySelector [[Attr ''data-sentry-element'' ''ColoredLine'']] document of
                None \<Rightarrow> (None, snd r)
              | Some levelIndicator \<Rightarrow>
                  (case querySelector [[Attr ''data-sentry-element'' ''VisuallyHidden'']]
                          levelIndicator of
                     None \<Rightarrow> (None, snd r)
                   | Some hiddenText \<Rightarrow>
                       (match_level (trim (textContent hiddenText)), snd r))))"

text \<open>
  The regular expression \<open>/^(GET|POST|PUT|DELETE|PATCH|HEAD|OPTIONS)\s+\//\<close> as a test.
\<close>

definition matches_route :: "string \<Rightarrow> bool" where
  "matches_route text =
     list_ex (\<lambda>method.
                take (length method) text = method
                \<and> (let r = drop (length method) text
                   in r \<noteq> [] \<and> is_space (hd r) \<and> take 1 (dropWhile is_space r) = ''/''))
       [''GET'', ''POST'', ''PUT'', ''DELETE'', ''PATCH'', ''HEAD'', ''OPTIONS'']"

text \<open>The last fallback of \<open>extractRoute\<close>: the loop over the highlight rows.\<close>

fun routeFromHighlightRows :: "node list \<Rightarrow> string option" where
  "routeFromHighlightRows [] = None"
| "routeFromHighlightRows (row # rows) =
     (case querySelector [[Attr ''data-sentry-element'' ''TreeKey'']] row of
        None \<Rightarrow> routeFromHighlightRows rows
      | Some keyEl \<Rightarrow>
          (let key = or_else (getAttribute keyEl ''title'') (trim (textContent keyEl))
           in if key = ''url'' \<or> key = ''transaction''
              then (case querySelector [[Attr ''data-sentry-element'' ''TreeValue'']] row of
                      None \<Rightarrow> routeFromHighlightRows rows
                    | Some valueEl \<Rightarrow> Some (trim (textContent valueEl)))
              else routeFromHighlightRows rows))"

text \<open>Extract URL/route from header or tags.\<close>

definition extractRoute :: "node \<Rightarrow> tags_module \<Rightarrow> string option \<times> tags_module" where
  "extractRoute document m =
     (let fromHeader =
            (case querySelector [[Attr ''data-sentry-element'' ''HeaderGrid'']] document of
               None \<Rightarrow> None
             | Some headerGrid \<Rightarrow>
                 List.find matches_route
                   (map (\<lambda>span. trim (textContent span))
                      (querySelectorAll [[Tag ''span'']] headerGrid)))
      in case fromHeader of
           Some text \<Rightarrow> (Some text, m)
         | None \<Rightarrow>
             (let r = extractTags document m
              in case tagValue (fst r) ''transaction'' of
                   Some v \<Rightarrow> (Some v, snd r)
                 | None \<Rightarrow>
                     (case tagValue (fst r) ''url'' of
                        Some v \<Rightarrow> (Some v, snd r)
                      | None \<Rightarrow> (routeFromHighlightRows (highlightRows document), snd r))))"

section \<open>The aggregator\<close>

text \<open>
  The page, and the extractors of the other modules. Those read the page only: the cache is
  a variable private to the tags module.
\<close>

record page =
  document :: node
  location_href :: string

record other_extractors =
  extractProjectName :: "page \<Rightarrow> string"
  extractIssueId :: "page \<Rightarrow> string"
  extractShortId :: "page \<Rightarrow> string option"
  extractIssueTitle :: "page \<Rightarrow> string"
  extractErrorMessage :: "page \<Rightarrow> string option"
  extractEventCount :: "page \<Rightarrow> string"
  extractUserCount :: "page \<Rightarrow> string"
  extractPriority :: "page \<Rightarrow> string option"
  extractStatus :: "page \<Rightarrow> string option"
  extractTimestamps :: "page \<Rightarrow> Timestamps option"
  extractUserInfo :: "page \<Rightarrow> string js_object option"
  extractStackTrace :: "page \<Rightarrow> StackTrace option"
  extractBreadcrumbs :: "page \<Rightarrow> Breadcrumb list option"
  extractHttpRequest :: "page \<Rightarrow> string js_object option"
  extractContexts :: "page \<Rightarrow> string js_object js_object option"
  extractAdditionalData :: "page \<Rightarrow> jsvalue js_object option"

text \<open>
  Extract all data from the current Sentry issue page. The cache is cleared first; the
  fields are then computed in the order of the object literal, and the state of the tags
  module goes through the four extractors that read the tags and through \<open>extractTags\<close>.
\<close>

definition extractAllData :: "other_extractors \<Rightarrow> page \<Rightarrow> tags_module
    \<Rightarrow> SentryIssueData \<times> tags_module" where
  "extractAllData ex pg m0 =
     (let m1 = clearTagsCache m0;
          rt = extractRoute (document pg) m1;
          en = extractEnvironment (document pg) (snd rt);
          rl = extractRelease (document pg) (snd en);
          lv = extractLevel (document pg) (snd rl);
          tg = extractTags (document pg) (snd lv)
      in (\<lparr> url = location_href pg,
            projectName = extractProjectName ex pg,
            issueId = extractIssueId ex pg,
            shortId = extractShortId ex pg,
            title = extractIssueTitle ex pg,
            errorMessage = extractErrorMessage ex pg,
            route = fst rt,
            eventCount = extractEventCount ex pg,
            userCount = extractUserCount ex pg,
            environment = fst en,
            release = fst rl,
            priority = extractPriority ex pg,
            status = extractStatus ex pg,
            level = fst lv,
            timestamps = extractTimestamps ex pg,
            userInfo = extractUserInfo ex pg,
            stackTrace = extractStackTrace ex pg,
            breadcrumbs = extractBreadcrumbs ex pg,
            httpRequest = extractHttpRequest ex pg,
            tags = fst tg,
            contexts = extractContexts ex pg,
            additionalData = extractAdditionalData ex pg \<rparr>,
          snd tg))"

section \<open>Well-formed records and example inputs\<close>

text \<open>
  A record is well formed for a runtime when each of its objects has no key twice, no tag key
  starts with a name inherited from \<open>Object.prototype\<close>, and \<open>JSON.stringify\<close> does not throw
  on any value of the additional data.
\<close>

definition stringifies :: "host \<Rightarrow> jsvalue \<Rightarrow> bool" where
  "stringifies h v = (case json_stringify h v of Inl e \<Rightarrow> False | Inr s \<Rightarrow> True)"

definition plainKey :: "string \<Rightarrow> bool" where
  "plainKey key = (\<not> inherited_name (hd (split_char CHR ''.'' key)))"

definition wellFormedObject :: "'v js_object option \<Rightarrow> bool" where
  "wellFormedObject obj = (case obj of None \<Rightarrow> True | Some ps \<Rightarrow> distinct (map fst ps))"

definition wellFormed :: "host \<Rightarrow> SentryIssueData \<Rightarrow> bool" where
  "wellFormed h d =
     (wellFormedObject (userInfo d) \<and> wellFormedObject (httpRequest d)
      \<and> wellFormedObject (tags d) \<and> wellFormedObject (contexts d)
      \<and> wellFormedObject (additionalData d)
      \<and> (case tags d of None \<Rightarrow> True | Some t \<Rightarrow> list_all (\<lambda>p. plainKey (fst p)) t)
      \<and> (case contexts d of
            None \<Rightarrow> True
          | Some cs \<Rightarrow> list_all (\<lambda>p. wellFormedObject (Some (snd p))) cs)
      \<and> (case additionalData d of
            None \<Rightarrow> True
          | Some a \<Rightarrow> list_all (\<lambda>p. stringifies h (snd p)) a))"

text \<open>
  The minimal record: title \<open>X\<close>, URL \<open>https://x\<close>, every nullable field \<open>null\<close>; the four
  strings that the type requires are parameters.
\<close>

definition minimalRecord :: "string \<Rightarrow> string \<Rightarrow> string \<Rightarrow> string \<Rightarrow> SentryIssueData" where
  "minimalRecord project issue events users =
     \<lparr> url = ''https://x'', projectName = project, issueId = issue, shortId = None,
       title = ''X'', errorMessage = None, route = None, eventCount = events,
       userCount = users, environment = None, release = None, priority = None,
       status = None, level = None, timestamps = None, userInfo = None, stackTrace = None,
       breadcrumbs = None, httpRequest = None, tags = None, contexts = None,
       additionalData = None \<rparr>"

text \<open>A runtime for the examples: its \<open>JSON.stringify\<close> knows strings without escapes only.\<close>

definition exampleStringify :: "jsvalue \<Rightarrow> js_error + string" where
  "exampleStringify v =
     (case v of JString s \<Rightarrow> Inr ([CHR 0x22] @ s @ [CHR 0x22]) | JNull \<Rightarrow> Inr ''null''
      | _ \<Rightarrow> Inl TypeError)"

definition exampleHost :: host where
  "exampleHost =
     \<lparr> now_toISOString = ''2026-11-02T10:45:00.000Z'',
       json_stringify = exampleStringify,
       json_stringify_indent2 = (\<lambda>obj. Inl TypeError),
       number_to_string = (\<lambda>n. ''0'') \<rparr>"

definition defaultOptions :: FormatOptions where
  "defaultOptions =
     \<lparr> includeBreadcrumbs = Missing, includeContexts = Missing, includeTags = Missing \<rparr>"

definition exampleCrumb :: "nat \<Rightarrow> Breadcrumb" where
  "exampleCrumb i =
     \<lparr> category = Some ''ui'', type = None, message = Some (nat_to_string i),
       timestamp = None, level = Some ''info'', raw = None \<rparr>"

definition exampleRecord :: SentryIssueData where
  "exampleRecord =
     (minimalRecord ''shop'' ''4711'' ''3'' ''1'')
       \<lparr> shortId := Some ''SHOP-1'',
         breadcrumbs := Some (map exampleCrumb [0..<17]),
         tags := Some [(''runtime'', ''node''), (''runtime.version'', ''18'')],
         additionalData := Some [(''retries'', JString ''2''), (''cause'', JNull)] \<rparr>"

definition longCrumb :: Breadcrumb where
  "longCrumb =
     \<lparr> category = Some ''http'', type = Some ''error'',
       message = Some (replicate 120 CHR ''a''), timestamp = Some ''10:45'',
       level = None, raw = None \<rparr>"

definition rawTrace :: StackTrace where
  "rawTrace =
     \<lparr> frames = Some [\<lparr> filename = ''app.js'', lineNo = ''7'', function_name = ''run'',
                         context_text = [], isSystem = False, isExpanded = False \<rparr>],
       raw = Some ''Error: boom at run (app.js:7)'',
       exceptionValue = Some ''boom'' \<rparr>"


section \<open>Notions used to state the properties of the tags extractor\<close>

text \<open>
  The key-value pairs of the rows that have a key element and a value element with a
  non-empty key and a non-empty value, in the order of the rows.
\<close>

definition rowPairs :: "node list \<Rightarrow> (string \<times> string) list" where
  "rowPairs rows =
     List.map_filter
       (\<lambda>row. case readTagRow row of
                 None \<Rightarrow> None
               | Some kv \<Rightarrow> if truthy (fst kv) \<and> truthy (snd kv) then Some kv else None)
       rows"

text \<open>The cache is either not valid or holds what the tags of the document are.\<close>

definition cacheFresh :: "node \<Rightarrow> tags_module \<Rightarrow> bool" where
  "cacheFresh doc m = (if tagsCacheValid m then tagsCache m = readTags doc else True)"

section \<open>Example pages\<close>

definition tagRow :: "string \<Rightarrow> string \<Rightarrow> string \<Rightarrow> node" where
  "tagRow testId key v =
     Element ''div'' [(''data-test-id'', testId)]
       [Element ''div'' [(''data-sentry-element'', ''TreeKey''), (''title'', key)] [Text key],
        Element ''div'' [(''data-sentry-element'', ''TreeValue'')]
          [Element ''a'' [(''href'', ''#'')] [Text ('' '' @ v @ '' '')]]]"

definition exampleSection :: "string \<Rightarrow> node" where
  "exampleSection env =
     Element ''section'' [(''id'', ''tags'')]
       [tagRow ''tag-tree-row'' ''environment'' env,
        tagRow ''tag-tree-row'' ''level'' ''error'']"

definition examplePage :: "string \<Rightarrow> node" where
  "examplePage env =
     Element ''#document'' []
       [Element ''html'' []
          [Element ''body'' []
             [Element ''div'' [(''class'', ''highlights'')]
                [tagRow ''highlight-tag-row'' ''environment'' ''staging'',
                 tagRow ''highlight-tag-row'' ''release'' ''1.2.3''],
              exampleSection env]]]"

text \<open>
  A page whose tag \<open>__proto__\<close> has a tag-tree row and a highlight row, with further
  tag-tree rows.
\<close>

definition protoSection :: "node list \<Rightarrow> node" where
  "protoSection others =
     Element ''section'' [(''id'', ''tags'')]
       (tagRow ''tag-tree-row'' ''__proto__'' ''primary'' # others)"

definition protoPage :: "node list \<Rightarrow> node" where
  "protoPage others =
     Element ''#document'' []
       [Element ''html'' []
          [Element ''body'' []
             [Element ''div'' [(''class'', ''highlights'')]
                [tagRow ''highlight-tag-row'' ''__proto__'' ''highlight''],
              protoSection others]]]"

definition initialModule :: tags_module where
  "initialModule = \<lparr> tagsCache = None, tagsCacheValid = False \<rparr>"

definition numberCell :: "string \<Rightarrow> node" where
  "numberCell t =
     Element ''td'' [(''class'', ''val'')]
       [Element ''span'' [(''data-test-id'', ''value-number'')] [Text t]]"

definition objectCell :: node where
  "objectCell =
     Element ''td'' [(''class'', ''val'')]
       [Element ''div'' [(''data-sentry-component'', ''CollapsibleValue'')]
          [Text ''{'',
           Element ''div'' [(''data-sentry-element'', ''CollapsibleContent'')]
             [Element ''div'' []
                [Element ''span'' [(''data-sentry-element'', ''ValueObjectKey'')]
                   [Text ''count''],
                 Element ''span'' [(''data-test-id'', ''value-number'')] [Text ''42'']]],
           Text ''}'']]"

definition exampleExtractors :: other_extractors where
  "exampleExtractors =
     \<lparr> extractProjectName = (\<lambda>pg. ''Unknown Project''),
       extractIssueId = (\<lambda>pg. ''Unknown''),
       extractShortId = (\<lambda>pg. None),
       extractIssueTitle = (\<lambda>pg. ''Unknown Issue''),
       extractErrorMessage = (\<lambda>pg. None),
       extractEventCount = (\<lambda>pg. ''0''),
       extractUserCount = (\<lambda>pg. ''0''),
       extractPriority = (\<lambda>pg. None),
       extractStatus = (\<lambda>pg. None),
       extractTimestamps = (\<lambda>pg. None),
       extractUserInfo = (\<lambda>pg. None),
       extractStackTrace = (\<lambda>pg. None),
       extractBreadcrumbs = (\<lambda>pg. None),
       extractHttpRequest = (\<lambda>pg. None),
       extractContexts = (\<lambda>pg. None),
       extractAdditionalData = (\<lambda>pg. None) \<rparr>"

section \<open>Properties of the formatter\<close>

subsection \<open>Computations of the formatter that cannot throw\<close>

lemma set_entries: "set (entries obj) = set obj"
  by (auto simp: entries_def)

lemma formatAsList_loop_returns:
  assumes "list_all (\<lambda>p. \<exists>s. displayValue h (snd p) = Inr s) es"
  shows "\<exists>s. formatAsList_loop h es acc = Inr s"
  using assms
proof (induction es arbitrary: acc)
  case Nil
  show ?case by simp
next
  case (Cons e es)
  obtain key v where e: "e = (key, v)" by (cases e)
  from Cons.prems e obtain s where s: "displayValue h v = Inr s" by auto
  from Cons.prems have "list_all (\<lambda>p. \<exists>s. displayValue h (snd p) = Inr s) es" by simp
  from Cons.IH [OF this] show ?case by (simp add: e s)
qed

lemma formatAsList_returns:
  assumes "list_all (\<lambda>p. \<exists>s. displayValue h (snd p) = Inr s) obj"
  shows "\<exists>s. formatAsList h (Some obj) = Inr s"
proof -
  from assms have "list_all (\<lambda>p. \<exists>s. displayValue h (snd p) = Inr s) (entries obj)"
    by (simp add: list_all_iff set_entries)
  from formatAsList_loop_returns [OF this] show ?thesis by simp
qed

lemma displayValue_string: "displayValue h (JString s) = Inr s"
  by (simp add: displayValue_def)

lemma formatAsList_strings_returns: "\<exists>s. formatAsList h (Some (as_values r)) = Inr s"
  by (rule formatAsList_returns) (simp add: list_all_iff as_values_def displayValue_string)

lemma listSection_returns: "\<exists>ls. listSection h heading obj = Inr ls"
proof (cases obj)
  case None
  then show ?thesis by (simp add: listSection_def)
next
  case (Some r)
  obtain s where "formatAsList h (Some (as_values r)) = Inr s"
    using formatAsList_strings_returns by blast
  with Some show ?thesis by (simp add: listSection_def)
qed

lemma formatContexts_loop_returns: "\<exists>s. formatContexts_loop h cs acc = Inr s"
proof (induction cs arbitrary: acc)
  case Nil
  show ?case by simp
next
  case (Cons c cs)
  obtain name dat where c: "c = (name, dat)" by (cases c)
  obtain l where l: "formatAsList h (Some (as_values dat)) = Inr l"
    using formatAsList_strings_returns by blast
  show ?case using Cons.IH by (simp add: c l del: formatAsList.simps)
qed

lemma contextsLines_returns: "\<exists>ls. contextsLines h enabled d = Inr ls"
proof (cases "contexts d")
  case None
  then show ?thesis by (simp add: contextsLines_def)
next
  case (Some cs)
  obtain s where "formatContexts_loop h (entries cs) [] = Inr s"
    using formatContexts_loop_returns by blast
  with Some show ?thesis by (auto simp add: contextsLines_def)
qed

lemma stringifies_displayValue:
  assumes "stringifies h v"
  shows "\<exists>s. displayValue h v = Inr s"
  using assms by (auto simp: stringifies_def displayValue_def split: sum.splits)

lemma additionalDataLines_returns:
  assumes "wellFormed h d"
  shows "\<exists>ls. additionalDataLines h d = Inr ls"
proof (cases "additionalData d")
  case None
  then show ?thesis by (simp add: additionalDataLines_def)
next
  case (Some a)
  with assms have "list_all (\<lambda>p. stringifies h (snd p)) a"
    by (simp add: wellFormed_def)
  then have "list_all (\<lambda>p. \<exists>s. displayValue h (snd p) = Inr s) a"
    by (auto simp: list_all_iff dest: stringifies_displayValue)
  from formatAsList_returns [OF this]
  obtain s where s: "formatAsList h (Some a) = Inr s" by blast
  have "\<exists>j. formatAdditionalData h (Some a) = Inr j"
    using s by (cases "json_stringify_indent2 h a") (auto simp del: formatAsList.simps)
  then obtain j where "formatAdditionalData h (Some a) = Inr j" by blast
  with Some show ?thesis by (simp add: additionalDataLines_def del: formatAdditionalData.simps)
qed

lemma inherited_name_proto: "inherited_name ''__proto__''"
  by (simp add: inherited_name_def object_prototype_names_def)

lemma group_tag_returns:
  assumes "plainKey (fst kv)"
  shows "\<exists>st'. group_tag kv st = Inr st'"
proof (cases "includes_dot (fst kv)")
  case False
  then show ?thesis by (simp add: group_tag_def Let_def)
next
  case True
  let ?prefix = "hd (split_char CHR ''.'' (fst kv))"
  from assms have plain: "\<not> inherited_name ?prefix" by (simp add: plainKey_def)
  with inherited_name_proto have "?prefix \<noteq> ''__proto__''" by auto
  with True plain show ?thesis
    by (cases "map_of (grouped st) ?prefix") (simp_all add: group_tag_def Let_def)
qed

lemma fold_group_tag_returns:
  assumes "list_all (\<lambda>p. plainKey (fst p)) es"
  shows "\<exists>st'. fold_throwing group_tag es st = Inr st'"
  using assms
proof (induction es arbitrary: st)
  case Nil
  show ?case by simp
next
  case (Cons e es)
  from Cons.prems obtain st1 where "group_tag e st = Inr st1"
    using group_tag_returns [of e st] by auto
  moreover from Cons.prems have "list_all (\<lambda>p. plainKey (fst p)) es" by simp
  from Cons.IH [OF this, of st1] obtain st2 where "fold_throwing group_tag es st1 = Inr st2"
    by blast
  ultimately show ?case by simp
qed

lemma formatTagsNested_returns:
  assumes "list_all (\<lambda>p. plainKey (fst p)) t"
  shows "\<exists>s. formatTagsNested (Some t) = Inr s"
proof -
  from assms have "list_all (\<lambda>p. plainKey (fst p)) (entries t)"
    by (simp add: list_all_iff set_entries)
  from fold_group_tag_returns [OF this]
  obtain st where "fold_throwing group_tag (entries t)
                     \<lparr>grouped = [], standalone = [], onBuiltin = []\<rparr> = Inr st"
    by blast
  then show ?thesis by (simp add: Let_def)
qed

lemma tagsLines_returns:
  assumes "wellFormed h d"
  shows "\<exists>ls. tagsLines enabled d = Inr ls"
proof (cases "tags d")
  case None
  then show ?thesis by (simp add: tagsLines_def)
next
  case (Some t)
  with assms have "list_all (\<lambda>p. plainKey (fst p)) t"
    by (simp add: wellFormed_def)
  from formatTagsNested_returns [OF this]
  obtain s where "formatTagsNested (Some t) = Inr s" by blast
  with Some show ?thesis by (simp add: tagsLines_def del: formatTagsNested.simps)
qed

lemma markdownLines_returns:
  assumes "wellFormed h d"
  shows "\<exists>http user tgs ctx extra.
           markdownLines h d options
             = Inr (headLines d @ overviewLines d @ [[]] @ errorMessageLines d
                    @ stackTraceLines d
                    @ breadcrumbLines (effective (includeBreadcrumbs options)) d
                    @ http @ user @ tgs @ ctx @ extra @ footerLines h)"
proof -
  obtain http where 1: "listSection h ''### HTTP Request'' (httpRequest d) = Inr http"
    using listSection_returns by blast
  obtain user where 2: "listSection h ''### User Information'' (userInfo d) = Inr user"
    using listSection_returns by blast
  obtain tgs where 3: "tagsLines (effective (includeTags options)) d = Inr tgs"
    using tagsLines_returns [OF assms] by blast
  obtain ctx where 4: "contextsLines h (effective (includeContexts options)) d = Inr ctx"
    using contextsLines_returns by blast
  obtain extra where 5: "additionalDataLines h d = Inr extra"
    using additionalDataLines_returns [OF assms] by blast
  have "markdownLines h d options
             = Inr (headLines d @ overviewLines d @ [[]] @ errorMessageLines d
                    @ stackTraceLines d
                    @ breadcrumbLines (effective (includeBreadcrumbs options)) d
                    @ http @ user @ tgs @ ctx @ extra @ footerLines h)"
    by (simp add: markdownLines_def 1 2 3 4 5)
  then show ?thesis by blast
qed

subsection \<open>The loop over the breadcrumbs\<close>

lemma formatBreadcrumb_append:
  "formatBreadcrumb bc out = out @ formatBreadcrumb bc []"
  by (simp add: formatBreadcrumb_def Let_def)

lemma fold_formatBreadcrumb:
  "fold formatBreadcrumb bcs out = out @ concat (map (\<lambda>bc. formatBreadcrumb bc []) bcs)"
proof (induction bcs arbitrary: out)
  case Nil
  show ?case by simp
next
  case (Cons bc bcs)
  have "fold formatBreadcrumb (bc # bcs) out
          = fold formatBreadcrumb bcs (formatBreadcrumb bc out)"
    by simp
  also have "\<dots> = formatBreadcrumb bc out
                     @ concat (map (\<lambda>bc. formatBreadcrumb bc []) bcs)"
    by (rule Cons.IH)
  also have "formatBreadcrumb bc out = out @ formatBreadcrumb bc []"
    by (rule formatBreadcrumb_append)
  finally show ?case by simp
qed

lemma formatBreadcrumbs_many:
  assumes "length bcs > 1"
  shows "formatBreadcrumbs (Some bcs)
           = concat (map (\<lambda>bc. formatBreadcrumb bc []) (slice_last 15 bcs))"
  using assms by (auto simp add: fold_formatBreadcrumb)

subsection \<open>Joining lines\<close>

lemma join_append:
  assumes "xs \<noteq> []" and "ys \<noteq> []"
  shows "join sep (xs @ ys) = join sep xs @ sep @ join sep ys"
  using assms
proof (induction sep xs rule: join.induct)
  case (1 sep)
  then show ?case by simp
next
  case (2 sep x)
  then show ?case by (cases ys) simp_all
next
  case (3 sep x y ys')
  then show ?case by simp
qed

subsection \<open>The claims about the formatter\<close>

text \<open>
  Claim C1, as amended. For every well-formed record and every options value the formatter
  returns a string and does not throw, and the string begins with \<open>## \<close>, the header title
  and a newline. The header title is the title, prefixed with the short id and \<open>: \<close> exactly
  when the short id is a non-empty string: the test of the code is the truthiness of
  \<open>data.shortId\<close>, so the empty short id gives the bare title as \<open>null\<close> does.
\<close>

theorem formatToJiraMarkdown_header:
  assumes "wellFormed h d"
  shows "\<exists>rest. formatToJiraMarkdown h d options
           = Inr (''## ''
                  @ (case shortId d of
                       None \<Rightarrow> title d
                     | Some s \<Rightarrow> if s = [] then title d else s @ '': '' @ title d)
                  @ [CHR 0x0A] @ rest)"
proof -
  obtain rest where "markdownLines h d options = Inr (headLines d @ rest)"
    using markdownLines_returns [OF assms, of options] by blast
  then have "formatToJiraMarkdown h d options = Inr (join [CHR 0x0A] (headLines d @ rest))"
    by (simp add: formatToJiraMarkdown_def)
  moreover have "headerTitle d = (case shortId d of
                       None \<Rightarrow> title d
                     | Some s \<Rightarrow> if s = [] then title d else s @ '': '' @ title d)"
    by (simp add: headerTitle_def truthy_def split: option.splits)
  ultimately show ?thesis by (simp add: headLines_def)
qed

theorem formatToJiraMarkdown_header_witness:
  "wellFormed exampleHost exampleRecord
   \<and> (\<exists>rest. formatToJiraMarkdown exampleHost exampleRecord defaultOptions
           = Inr (''## SHOP-1: X'' @ [CHR 0x0A] @ rest))"
proof -
  have wf: "wellFormed exampleHost exampleRecord"
    by code_simp
  have "shortId exampleRecord = Some ''SHOP-1''" "title exampleRecord = ''X''"
    by (simp_all add: exampleRecord_def minimalRecord_def)
  with formatToJiraMarkdown_header [OF wf, of defaultOptions] wf show ?thesis by simp
qed

text \<open>
  Claim C1 as stated fails for the record with the empty short id: the short id is not
  \<open>null\<close>, and the first line is \<open>## X\<close>, without the prefix \<open>: \<close>.
\<close>

theorem formatToJiraMarkdown_header_counterexample:
  "wellFormed exampleHost ((minimalRecord [] [] [] [])\<lparr>shortId := Some []\<rparr>)
   \<and> shortId ((minimalRecord [] [] [] [])\<lparr>shortId := Some []\<rparr>) \<noteq> None
   \<and> formatToJiraMarkdown exampleHost ((minimalRecord [] [] [] [])\<lparr>shortId := Some []\<rparr>)
        defaultOptions
      = Inr (''## X'' @ [CHR 0x0A, CHR 0x0A] @ ''[View in Sentry](https://x)''
             @ [CHR 0x0A, CHR 0x0A] @ ''---'' @ [CHR 0x0A, CHR 0x0A] @ ''### Issue Overview''
             @ [CHR 0x0A, CHR 0x0A, CHR 0x0A] @ ''---'' @ [CHR 0x0A]
             @ ''*Extracted from Sentry on 2026-11-02*'')
   \<and> \<not> prefix (''## '' @ the (shortId ((minimalRecord [] [] [] [])\<lparr>shortId := Some []\<rparr>))
                 @ '': '')
          (projr (formatToJiraMarkdown exampleHost
                    ((minimalRecord [] [] [] [])\<lparr>shortId := Some []\<rparr>) defaultOptions))"
  by code_simp

text \<open>
  Claim C4. A breadcrumb list with more than 15 entries is rendered as the lines of exactly
  its last 15 entries, in their original order, and of no other entry. The line of an entry
  is \<open>- \<close>, the time stamp in square brackets, a space, the category in bold, a space, the
  type or else the level in parentheses, a space, the first 100 characters of the message
  and a newline, where a part that is \<open>null\<close> or empty is left out and the spaces stay. A
  list of more than 15 entries never takes the branch for the single raw entry.
\<close>

theorem formatBreadcrumbs_last_15:
  assumes "length bcs > 15"
  shows "\<exists>older recent. bcs = older @ recent \<and> length recent = 15
           \<and> formatBreadcrumbs (Some bcs)
               = concat (map (\<lambda>bc.
                   ''- ''
                   @ (case timestamp bc of
                        None \<Rightarrow> [] | Some t \<Rightarrow> if t = [] then [] else ''['' @ t @ '']'')
                   @ '' ''
                   @ (case category bc of
                        None \<Rightarrow> [] | Some c \<Rightarrow> if c = [] then [] else ''**'' @ c @ ''**'')
                   @ '' ''
                   @ (case (if type bc = None \<or> type bc = Some [] then Breadcrumb.level bc
                            else type bc) of
                        None \<Rightarrow> [] | Some l \<Rightarrow> if l = [] then [] else ''('' @ l @ '')'')
                   @ '' ''
                   @ (case message bc of None \<Rightarrow> [] | Some m \<Rightarrow> take 100 m)
                   @ [CHR 0x0A]) recent)"
proof -
  let ?older = "take (length bcs - 15) bcs"
  let ?recent = "drop (length bcs - 15) bcs"
  have line: "formatBreadcrumb bc []
      = ''- ''
        @ (case timestamp bc of
             None \<Rightarrow> [] | Some t \<Rightarrow> if t = [] then [] else ''['' @ t @ '']'')
        @ '' ''
        @ (case category bc of
             None \<Rightarrow> [] | Some c \<Rightarrow> if c = [] then [] else ''**'' @ c @ ''**'')
        @ '' ''
        @ (case (if type bc = None \<or> type bc = Some [] then Breadcrumb.level bc
                 else type bc) of
             None \<Rightarrow> [] | Some l \<Rightarrow> if l = [] then [] else ''('' @ l @ '')'')
        @ '' ''
        @ (case message bc of None \<Rightarrow> [] | Some m \<Rightarrow> take 100 m)
        @ [CHR 0x0A]" for bc
    by (simp add: formatBreadcrumb_def Let_def truthy_def split: option.splits)
  have "bcs = ?older @ ?recent" by simp
  moreover have "length ?recent = 15" using assms by simp
  moreover have "formatBreadcrumbs (Some bcs)
                   = concat (map (\<lambda>bc. formatBreadcrumb bc []) ?recent)"
    using assms formatBreadcrumbs_many [of bcs] by (simp add: slice_last_def)
  ultimately show ?thesis unfolding line by blast
qed

theorem formatBreadcrumbs_last_15_witness:
  "length (map exampleCrumb [0..<17]) > 15
   \<and> formatBreadcrumbs (Some (map exampleCrumb [0..<17]))
     = ''-  **ui** (info) 2'' @ [CHR 0x0A] @ ''-  **ui** (info) 3'' @ [CHR 0x0A]
       @ ''-  **ui** (info) 4'' @ [CHR 0x0A] @ ''-  **ui** (info) 5'' @ [CHR 0x0A]
       @ ''-  **ui** (info) 6'' @ [CHR 0x0A] @ ''-  **ui** (info) 7'' @ [CHR 0x0A]
       @ ''-  **ui** (info) 8'' @ [CHR 0x0A] @ ''-  **ui** (info) 9'' @ [CHR 0x0A]
       @ ''-  **ui** (info) 10'' @ [CHR 0x0A] @ ''-  **ui** (info) 11'' @ [CHR 0x0A]
       @ ''-  **ui** (info) 12'' @ [CHR 0x0A] @ ''-  **ui** (info) 13'' @ [CHR 0x0A]
       @ ''-  **ui** (info) 14'' @ [CHR 0x0A] @ ''-  **ui** (info) 15'' @ [CHR 0x0A]
       @ ''-  **ui** (info) 16'' @ [CHR 0x0A]"
proof -
  let ?bcs = "map exampleCrumb [0..<17]"
  have len: "length ?bcs > 15" by simp
  from formatBreadcrumbs_last_15 [OF len] obtain older recent
    where split: "?bcs = older @ recent" and fifteen: "length recent = 15"
      and out: "formatBreadcrumbs (Some ?bcs)
               = concat (map (\<lambda>bc.
                   ''- ''
                   @ (case timestamp bc of
                        None \<Rightarrow> [] | Some t \<Rightarrow> if t = [] then [] else ''['' @ t @ '']'')
                   @ '' ''
                   @ (case category bc of
                        None \<Rightarrow> [] | Some c \<Rightarrow> if c = [] then [] else ''**'' @ c @ ''**'')
                   @ '' ''
                   @ (case (if type bc = None \<or> type bc = Some [] then Breadcrumb.level bc
                            else type bc) of
                        None \<Rightarrow> [] | Some l \<Rightarrow> if l = [] then [] else ''('' @ l @ '')'')
                   @ '' ''
                   @ (case message bc of None \<Rightarrow> [] | Some m \<Rightarrow> take 100 m)
                   @ [CHR 0x0A]) recent)"
    by blast
  from split have "drop (length older) ?bcs = recent" by simp
  moreover have "length ?bcs = length older + length recent"
    unfolding split by simp
  with fifteen have "length older = 2" by simp
  ultimately have recent: "recent = map exampleCrumb [2..<17]"
    by (simp add: drop_map numeral_2_eq_2 del: upt_rec_numeral)
  have lines: "formatBreadcrumbs (Some (map exampleCrumb [0..<17]))
          = concat (map (\<lambda>i. ''-  **ui** (info) '' @ take 100 (nat_to_string i) @ [CHR 0x0A])
                      [2..<17])"
    unfolding out recent
    by (simp add: exampleCrumb_def comp_def del: upt_rec_numeral)
  show ?thesis unfolding lines by code_simp
qed

text \<open>
  Claim C10. Unless the list is the single raw-text entry, the breadcrumbs section is the
  sequence of the bullets of the rendered entries, and the bullet of an entry ends with its
  message cut to the first 100 characters: a message of more than 100 characters contributes
  exactly its first 100 characters, a shorter one is unchanged, and the rest of the bullet
  does not depend on the message.
\<close>

theorem formatBreadcrumb_message_first_100:
  "(\<not> (length bcs = 1 \<and> truthy_opt (Breadcrumb.raw (bcs ! 0))) \<longrightarrow>
      formatBreadcrumbs (Some bcs)
        = concat (map (\<lambda>bc. formatBreadcrumb bc []) (slice_last 15 bcs)))
   \<and> (\<exists>bullet. \<forall>m. formatBreadcrumb (bc\<lparr>message := m\<rparr>) []
          = bullet @ (case m of None \<Rightarrow> []
                      | Some t \<Rightarrow> if length t > 100 then take 100 t else t) @ [CHR 0x0A])"
proof
  show "\<not> (length bcs = 1 \<and> truthy_opt (Breadcrumb.raw (bcs ! 0))) \<longrightarrow>
      formatBreadcrumbs (Some bcs)
        = concat (map (\<lambda>bc. formatBreadcrumb bc []) (slice_last 15 bcs))"
    by (simp add: fold_formatBreadcrumb slice_last_def)
next
  let ?bullet = "formatBreadcrumb (bc\<lparr>message := None\<rparr>) []"
  have "formatBreadcrumb (bc\<lparr>message := m\<rparr>) []
          = butlast ?bullet @ (case m of None \<Rightarrow> []
                      | Some t \<Rightarrow> if length t > 100 then take 100 t else t) @ [CHR 0x0A]" for m
    by (cases m) (simp_all add: formatBreadcrumb_def Let_def truthy_def butlast_append)
  then show "\<exists>bullet. \<forall>m. formatBreadcrumb (bc\<lparr>message := m\<rparr>) []
          = bullet @ (case m of None \<Rightarrow> []
                      | Some t \<Rightarrow> if length t > 100 then take 100 t else t) @ [CHR 0x0A]"
    by blast
qed

theorem formatBreadcrumb_message_first_100_witness:
  "\<not> (length [longCrumb] = 1 \<and> truthy_opt (Breadcrumb.raw ([longCrumb] ! 0)))
   \<and> formatBreadcrumbs (Some [longCrumb])
       = ''- [10:45] **http** (error) '' @ replicate 100 CHR ''a'' @ [CHR 0x0A]
   \<and> (\<exists>bullet. \<forall>m. formatBreadcrumb (longCrumb\<lparr>message := m\<rparr>) []
          = bullet @ (case m of None \<Rightarrow> []
                      | Some t \<Rightarrow> if length t > 100 then take 100 t else t) @ [CHR 0x0A])"
proof -
  have raw_none: "\<not> (length [longCrumb] = 1 \<and> truthy_opt (Breadcrumb.raw ([longCrumb] ! 0)))"
    by (simp add: longCrumb_def)
  have line: "formatBreadcrumb longCrumb []
          = ''- [10:45] **http** (error) '' @ replicate 100 CHR ''a'' @ [CHR 0x0A]"
    by code_simp
  from formatBreadcrumb_message_first_100 [of "[longCrumb]" longCrumb] raw_none line
  show ?thesis by (simp add: slice_last_def)
qed

text \<open>
  Claim C2. A stack trace whose \<open>raw\<close> field is a non-empty string is rendered as the
  optional exception line followed by exactly one fenced block that holds the raw text, and
  the frames take no part in it: the output is the same whatever the \<open>frames\<close> field holds.
\<close>

theorem formatStackTrace_raw:
  assumes "StackTrace.raw st = Some r" and "r \<noteq> []"
  shows "formatStackTrace (Some st)
           = (case exceptionValue st of
                None \<Rightarrow> []
              | Some ev \<Rightarrow> if ev = [] then []
                          else ''**Exception:** '' @ ev @ [CHR 0x0A, CHR 0x0A])
             @ ''```'' @ [CHR 0x0A] @ r @ [CHR 0x0A] @ ''```''
         \<and> formatStackTrace (Some (st\<lparr>frames := fs\<rparr>)) = formatStackTrace (Some st)"
  using assms by (simp add: truthy_def split: option.splits)

theorem formatStackTrace_raw_witness:
  "StackTrace.raw rawTrace = Some ''Error: boom at run (app.js:7)''
   \<and> ''Error: boom at run (app.js:7)'' \<noteq> []
   \<and> formatStackTrace (Some rawTrace)
       = ''**Exception:** boom'' @ [CHR 0x0A, CHR 0x0A] @ ''```'' @ [CHR 0x0A]
         @ ''Error: boom at run (app.js:7)'' @ [CHR 0x0A] @ ''```''
   \<and> formatStackTrace (Some (rawTrace\<lparr>frames := None\<rparr>)) = formatStackTrace (Some rawTrace)"
proof -
  have r: "StackTrace.raw rawTrace = Some ''Error: boom at run (app.js:7)''"
    by (simp add: rawTrace_def)
  have ev: "exceptionValue rawTrace = Some ''boom''"
    by (simp add: rawTrace_def)
  from formatStackTrace_raw [OF r, of None] r ev show ?thesis
    by (simp del: formatStackTrace.simps)
qed

text \<open>
  Claim C5. For the minimal record with title \<open>X\<close> and URL \<open>https://x\<close> the output is the
  header, the source link, the horizontal rule, the \<open>Issue Overview\<close> header and the footer,
  and nothing else, when the four strings that the type requires are empty. When they are
  not, the only further lines are their bullets in the overview: no section header for error
  message, stack trace, breadcrumbs, HTTP request, user information, tags, contexts or
  additional data is put out, whatever the options.
\<close>

theorem minimal_record_output:
  "formatToJiraMarkdown h (minimalRecord [] [] [] []) options
     = Inr (''## X'' @ [CHR 0x0A, CHR 0x0A] @ ''[View in Sentry](https://x)''
            @ [CHR 0x0A, CHR 0x0A] @ ''---'' @ [CHR 0x0A, CHR 0x0A] @ ''### Issue Overview''
            @ [CHR 0x0A, CHR 0x0A, CHR 0x0A] @ ''---'' @ [CHR 0x0A]
            @ ''*Extracted from Sentry on '' @ hd (split_char CHR ''T'' (now_toISOString h))
            @ ''*'')
   \<and> markdownLines h (minimalRecord project issue events users) options
     = Inr ([''## X'', [], ''[View in Sentry](https://x)'', [], ''---'', [],
             ''### Issue Overview'', []]
            @ (if project = [] then [] else [''- **Project:** '' @ project])
            @ (if issue = [] then [] else [''- **Issue ID:** '' @ issue])
            @ (if events = [] then [] else [''- **Events:** '' @ events])
            @ (if users = [] then [] else [''- **Users Affected:** '' @ users])
            @ [[], ''---'',
               ''*Extracted from Sentry on '' @ hd (split_char CHR ''T'' (now_toISOString h))
               @ ''*''])"
proof
  have lines: "markdownLines h (minimalRecord pn iid ec uc) options
     = Inr (headLines (minimalRecord pn iid ec uc) @ overviewLines (minimalRecord pn iid ec uc)
            @ [[]] @ footerLines h)" for pn iid ec uc
    by (simp add: markdownLines_def minimalRecord_def listSection_def contextsLines_def
        additionalDataLines_def tagsLines_def breadcrumbLines_def stackTraceLines_def
        errorMessageLines_def)
  have head: "headLines (minimalRecord pn iid ec uc)
     = [''## X'', [], ''[View in Sentry](https://x)'', [], ''---'', [],
             ''### Issue Overview'', []]" for pn iid ec uc
    by (simp add: headLines_def headerTitle_def minimalRecord_def)
  have over: "overviewLines (minimalRecord pn iid ec uc)
     = (if pn = [] then [] else [''- **Project:** '' @ pn])
            @ (if iid = [] then [] else [''- **Issue ID:** '' @ iid])
            @ (if ec = [] then [] else [''- **Events:** '' @ ec])
            @ (if uc = [] then [] else [''- **Users Affected:** '' @ uc])" for pn iid ec uc
    by (simp add: overviewLines_def minimalRecord_def truthy_def)
  show "formatToJiraMarkdown h (minimalRecord [] [] [] []) options
     = Inr (''## X'' @ [CHR 0x0A, CHR 0x0A] @ ''[View in Sentry](https://x)''
            @ [CHR 0x0A, CHR 0x0A] @ ''---'' @ [CHR 0x0A, CHR 0x0A] @ ''### Issue Overview''
            @ [CHR 0x0A, CHR 0x0A, CHR 0x0A] @ ''---'' @ [CHR 0x0A]
            @ ''*Extracted from Sentry on '' @ hd (split_char CHR ''T'' (now_toISOString h))
            @ ''*'')"
    by (simp add: formatToJiraMarkdown_def lines head over footerLines_def)
  show "markdownLines h (minimalRecord project issue events users) options
     = Inr ([''## X'', [], ''[View in Sentry](https://x)'', [], ''---'', [],
             ''### Issue Overview'', []]
            @ (if project = [] then [] else [''- **Project:** '' @ project])
            @ (if issue = [] then [] else [''- **Issue ID:** '' @ issue])
            @ (if events = [] then [] else [''- **Events:** '' @ events])
            @ (if users = [] then [] else [''- **Users Affected:** '' @ users])
            @ [[], ''---'',
               ''*Extracted from Sentry on '' @ hd (split_char CHR ''T'' (now_toISOString h))
               @ ''*''])"
    unfolding lines head over by (simp add: footerLines_def)
qed

theorem minimal_record_output_witness:
  "formatToJiraMarkdown exampleHost (minimalRecord [] [] [] []) defaultOptions
     = Inr (''## X'' @ [CHR 0x0A, CHR 0x0A] @ ''[View in Sentry](https://x)''
            @ [CHR 0x0A, CHR 0x0A] @ ''---'' @ [CHR 0x0A, CHR 0x0A] @ ''### Issue Overview''
            @ [CHR 0x0A, CHR 0x0A, CHR 0x0A] @ ''---'' @ [CHR 0x0A]
            @ ''*Extracted from Sentry on 2026-11-02*'')
   \<and> markdownLines exampleHost (minimalRecord ''shop'' [] ''3'' []) defaultOptions
     = Inr [''## X'', [], ''[View in Sentry](https://x)'', [], ''---'', [],
            ''### Issue Overview'', [], ''- **Project:** shop'', ''- **Events:** 3'',
            [], ''---'', ''*Extracted from Sentry on 2026-11-02*'']"
proof -
  have date: "hd (split_char CHR ''T'' (now_toISOString exampleHost)) = ''2026-11-02''"
    by (simp add: exampleHost_def)
  from minimal_record_output [of exampleHost defaultOptions "''shop''" "[]" "''3''" "[]"] date
  show ?thesis by simp
qed

text \<open>
  Claim C9. When the breadcrumb list of a well-formed record is not empty and breadcrumbs are
  enabled, the output has the line \<open>### Breadcrumbs (N entries)\<close> with \<open>N\<close> the length of
  the whole list, followed by an empty line and the rendered breadcrumbs, which are at most
  the last 15 entries.
\<close>

theorem breadcrumbs_header_total:
  assumes "wellFormed h d" and "breadcrumbs d = Some bcs" and "bcs \<noteq> []"
    and "effective (includeBreadcrumbs options)"
  shows "\<exists>before after.
           formatToJiraMarkdown h d options
             = Inr (before @ [CHR 0x0A] @ ''### Breadcrumbs ('' @ nat_to_string (length bcs)
                    @ '' entries)'' @ [CHR 0x0A, CHR 0x0A] @ formatBreadcrumbs (Some bcs)
                    @ [CHR 0x0A] @ after)"
proof -
  let ?hdr = "''### Breadcrumbs ('' @ nat_to_string (length bcs) @ '' entries)''"
  let ?sec = "[?hdr, [], formatBreadcrumbs (Some bcs), []]"
  obtain http user tgs ctx extra where ml:
    "markdownLines h d options
             = Inr (headLines d @ overviewLines d @ [[]] @ errorMessageLines d
                    @ stackTraceLines d
                    @ breadcrumbLines (effective (includeBreadcrumbs options)) d
                    @ http @ user @ tgs @ ctx @ extra @ footerLines h)"
    using markdownLines_returns [OF assms(1), of options] by blast
  define A where "A = headLines d @ overviewLines d @ [[]] @ errorMessageLines d
                    @ stackTraceLines d"
  define B where "B = http @ user @ tgs @ ctx @ extra @ footerLines h"
  have bl: "breadcrumbLines (effective (includeBreadcrumbs options)) d = ?sec"
    using assms by (simp add: breadcrumbLines_def del: formatBreadcrumbs.simps)
  have A: "A \<noteq> []" by (simp add: A_def headLines_def)
  have B: "B \<noteq> []" by (simp add: B_def footerLines_def)
  have "markdownLines h d options = Inr (A @ ?sec @ B)"
    unfolding ml bl A_def B_def by simp
  then have "formatToJiraMarkdown h d options = Inr (join [CHR 0x0A] (A @ ?sec @ B))"
    by (simp add: formatToJiraMarkdown_def del: formatBreadcrumbs.simps)
  also have "join [CHR 0x0A] (A @ ?sec @ B)
               = join [CHR 0x0A] A @ [CHR 0x0A] @ join [CHR 0x0A] (?sec @ B)"
    using A by (rule join_append) simp
  also have "join [CHR 0x0A] (?sec @ B)
               = join [CHR 0x0A] ?sec @ [CHR 0x0A] @ join [CHR 0x0A] B"
    using B by (intro join_append) simp_all
  also have "join [CHR 0x0A] ?sec
               = ?hdr @ [CHR 0x0A, CHR 0x0A] @ formatBreadcrumbs (Some bcs) @ [CHR 0x0A]"
    by (simp del: formatBreadcrumbs.simps)
  finally have "formatToJiraMarkdown h d options
     = Inr (join [CHR 0x0A] A @ [CHR 0x0A] @ ?hdr @ [CHR 0x0A, CHR 0x0A]
            @ formatBreadcrumbs (Some bcs) @ [CHR 0x0A] @ ([CHR 0x0A] @ join [CHR 0x0A] B))"
    by (simp del: formatBreadcrumbs.simps)
  then show ?thesis
    by (intro exI [where x = "join [CHR 0x0A] A"]
              exI [where x = "[CHR 0x0A] @ join [CHR 0x0A] B"])
       (simp del: formatBreadcrumbs.simps)
qed

theorem breadcrumbs_header_total_witness:
  "wellFormed exampleHost exampleRecord
   \<and> breadcrumbs exampleRecord = Some (map exampleCrumb [0..<17])
   \<and> map exampleCrumb [0..<17] \<noteq> []
   \<and> effective (includeBreadcrumbs defaultOptions)
   \<and> (\<exists>before after.
           formatToJiraMarkdown exampleHost exampleRecord defaultOptions
             = Inr (before @ [CHR 0x0A] @ ''### Breadcrumbs (17 entries)''
                    @ [CHR 0x0A, CHR 0x0A]
                    @ formatBreadcrumbs (Some (map exampleCrumb [0..<17]))
                    @ [CHR 0x0A] @ after))"
proof -
  have wf: "wellFormed exampleHost exampleRecord"
    by code_simp
  have bc: "breadcrumbs exampleRecord = Some (map exampleCrumb [0..<17])"
    by (simp add: exampleRecord_def minimalRecord_def)
  have ne: "map exampleCrumb [0..<17] \<noteq> []"
    by simp
  have en: "effective (includeBreadcrumbs defaultOptions)"
    by (simp add: defaultOptions_def)
  have n: "nat_to_string (length (map exampleCrumb [0..<17])) = ''17''"
    by code_simp
  from breadcrumbs_header_total [OF wf bc ne en] wf bc ne en n show ?thesis
    by (simp del: formatBreadcrumbs.simps upt_rec_numeral)
qed


subsection \<open>The tags section\<close>

text \<open>
  Claim C3. The two examples of the claim are rendered as it says: the tags
  \<open>runtime = node\<close> and \<open>runtime.version = 18\<close> give one bullet for \<open>runtime\<close> with the
  sub-bullet \<open>version: 18\<close>, and the tag \<open>os.name = linux\<close> gives the bare parent bullet
  \<open>- **os:**\<close> with the sub-bullet \<open>name: linux\<close>. The general statement of the claim fails
  on the code. For the single tag \<open>constructor.x = v\<close> there is no standalone tag
  \<open>constructor\<close>, so the claim asks for the parent bullet \<open>- **constructor:**\<close> with the
  sub-bullet \<open>x: v\<close>, and the code puts out nothing: \<open>grouped[prefix]\<close> is the inherited
  function, no group is created and the value is stored on that function. With the
  standalone tag \<open>name\<close> added the text has the bullet of \<open>name\<close> only. For the single tag
  \<open>a.__proto__ = v\<close> the code puts out the parent bullet \<open>- **a:**\<close> without a sub-bullet:
  the assignment to \<open>__proto__\<close> stores nothing in the group.
\<close>

theorem formatTagsNested_inherited_names:
  "formatTagsNested (Some [(''runtime'', ''node''), (''runtime.version'', ''18'')])
     = Inr (''- **runtime:** node'' @ [CHR 0x0A] @ ''  - version: 18'' @ [CHR 0x0A])
   \<and> formatTagsNested (Some [(''os.name'', ''linux'')])
     = Inr (''- **os:**'' @ [CHR 0x0A] @ ''  - name: linux'' @ [CHR 0x0A])
   \<and> formatTagsNested (Some [(''constructor.x'', ''v'')]) = Inr []
   \<and> formatTagsNested (Some [(''name'', ''n''), (''constructor.x'', ''v'')])
     = Inr (''- **name:** n'' @ [CHR 0x0A])
   \<and> formatTagsNested (Some [(''a.__proto__'', ''v'')]) = Inr (''- **a:**'' @ [CHR 0x0A])"
  by code_simp


section \<open>Properties of the extractors\<close>

subsection \<open>The cache of the tags module\<close>

lemma extractTags_valid:
  "tagsCacheValid (snd (extractTags doc m))"
  by (simp add: extractTags_def Let_def)

lemma extractTags_again:
  "extractTags docB (snd (extractTags docA m)) = (fst (extractTags docA m), snd (extractTags docA m))"
  by (simp add: extractTags_def Let_def)

lemma extractTags_cleared:
  "extractTags doc (clearTagsCache m)
     = (readTags doc, m\<lparr>tagsCache := readTags doc, tagsCacheValid := True\<rparr>)"
  by (simp add: extractTags_def clearTagsCache_def Let_def)

lemma cacheFresh_cleared: "cacheFresh doc (clearTagsCache m)"
  by (simp add: cacheFresh_def clearTagsCache_def)

lemma extractTags_fresh:
  assumes "cacheFresh doc m"
  shows "fst (extractTags doc m) = readTags doc" and "cacheFresh doc (snd (extractTags doc m))"
  using assms by (auto simp: cacheFresh_def extractTags_def Let_def)

lemma extractEnvironment_fresh:
  assumes "cacheFresh doc m"
  shows "cacheFresh doc (snd (extractEnvironment doc m))"
  using extractTags_fresh(2) [OF assms]
  by (simp add: extractEnvironment_def Let_def split: option.splits)

lemma extractRelease_fresh:
  assumes "cacheFresh doc m"
  shows "cacheFresh doc (snd (extractRelease doc m))"
  using extractTags_fresh(2) [OF assms]
  by (simp add: extractRelease_def Let_def split: option.splits)

lemma extractLevel_fresh:
  assumes "cacheFresh doc m"
  shows "cacheFresh doc (snd (extractLevel doc m))"
  using extractTags_fresh(2) [OF assms]
  by (simp add: extractLevel_def Let_def split: option.splits)

lemma extractRoute_fresh:
  assumes "cacheFresh doc m"
  shows "cacheFresh doc (snd (extractRoute doc m))"
  using extractTags_fresh(2) [OF assms] assms
  by (simp add: extractRoute_def Let_def split: option.splits)

lemma extractAllData_tags:
  "tags (fst (extractAllData ex pg m)) = readTags (document pg)"
proof -
  let ?d = "document pg"
  have "cacheFresh ?d (snd (extractLevel ?d (snd (extractRelease ?d
          (snd (extractEnvironment ?d (snd (extractRoute ?d (clearTagsCache m)))))))))"
    by (intro extractLevel_fresh extractRelease_fresh extractEnvironment_fresh
        extractRoute_fresh cacheFresh_cleared)
  from extractTags_fresh(1) [OF this] show ?thesis
    by (simp add: extractAllData_def Let_def)
qed

lemma clearTagsCache_const: "clearTagsCache m = clearTagsCache m'"
  by (simp add: clearTagsCache_def)

text \<open>
  Claim C6. A call of \<open>extractTags\<close> that follows another one without a clear in between
  returns what the first call returned and leaves the module as it is, whatever the document
  holds by then: the document is not read. After \<open>clearTagsCache\<close> the next call returns what
  the document holds and caches it. \<open>extractAllData\<close> clears the cache first, so the tags of
  its record are those of the page it is given, and its result does not depend on what an
  earlier pass has left in the cache.
\<close>

theorem tags_cache_lifecycle:
  "extractTags docB (snd (extractTags docA m))
     = (fst (extractTags docA m), snd (extractTags docA m))
   \<and> extractTags doc (clearTagsCache m)
     = (readTags doc, m\<lparr>tagsCache := readTags doc, tagsCacheValid := True\<rparr>)
   \<and> tags (fst (extractAllData ex pg m)) = readTags (document pg)
   \<and> extractAllData ex pg m = extractAllData ex pg m'"
proof (intro conjI)
  show "extractTags docB (snd (extractTags docA m))
     = (fst (extractTags docA m), snd (extractTags docA m))"
    by (rule extractTags_again)
  show "extractTags doc (clearTagsCache m)
     = (readTags doc, m\<lparr>tagsCache := readTags doc, tagsCacheValid := True\<rparr>)"
    by (rule extractTags_cleared)
  show "tags (fst (extractAllData ex pg m)) = readTags (document pg)"
    by (rule extractAllData_tags)
  show "extractAllData ex pg m = extractAllData ex pg m'"
    using clearTagsCache_const [of m m'] by (simp add: extractAllData_def)
qed

theorem tags_cache_lifecycle_witness:
  "fst (extractTags (examplePage ''production'') initialModule)
     = Some [(''environment'', ''production''), (''level'', ''error''), (''release'', ''1.2.3'')]
   \<and> fst (extractTags (examplePage ''dev'')
            (snd (extractTags (examplePage ''production'') initialModule)))
     = Some [(''environment'', ''production''), (''level'', ''error''), (''release'', ''1.2.3'')]
   \<and> fst (extractTags (examplePage ''dev'')
            (clearTagsCache (snd (extractTags (examplePage ''production'') initialModule))))
     = Some [(''environment'', ''dev''), (''level'', ''error''), (''release'', ''1.2.3'')]
   \<and> tags (fst (extractAllData exampleExtractors
                   \<lparr>document = examplePage ''dev'', location_href = ''https://x''\<rparr>
                   (snd (extractTags (examplePage ''production'') initialModule))))
     = Some [(''environment'', ''dev''), (''level'', ''error''), (''release'', ''1.2.3'')]"
proof -
  let ?prod = "examplePage ''production''" and ?dev = "examplePage ''dev''"
  let ?m = "snd (extractTags ?prod initialModule)"
  have prod: "readTags ?prod
     = Some [(''environment'', ''production''), (''level'', ''error''), (''release'', ''1.2.3'')]"
    by code_simp
  have dev: "readTags ?dev
     = Some [(''environment'', ''dev''), (''level'', ''error''), (''release'', ''1.2.3'')]"
    by code_simp
  have first: "fst (extractTags ?prod initialModule) = readTags ?prod"
    by (simp add: extractTags_def initialModule_def Let_def)
  from tags_cache_lifecycle [where docB = ?dev and docA = ?prod and m = initialModule]
  have again: "fst (extractTags ?dev ?m) = fst (extractTags ?prod initialModule)"
    by simp
  from tags_cache_lifecycle [where m = ?m and doc = ?dev and ex = exampleExtractors
      and pg = "\<lparr>document = ?dev, location_href = ''https://x''\<rparr>"]
  have "fst (extractTags ?dev (clearTagsCache ?m)) = readTags ?dev"
    and "tags (fst (extractAllData exampleExtractors
                   \<lparr>document = ?dev, location_href = ''https://x''\<rparr> ?m)) = readTags ?dev"
    by simp_all
  with again
  have "fst (extractTags ?dev ?m) = fst (extractTags ?prod initialModule)"
    and "fst (extractTags ?dev (clearTagsCache ?m)) = readTags ?dev"
    and "tags (fst (extractAllData exampleExtractors
                   \<lparr>document = ?dev, location_href = ''https://x''\<rparr> ?m)) = readTags ?dev"
    by simp_all
  then show ?thesis unfolding first prod dev by (intro conjI) simp_all
qed

subsection \<open>The two row sets of the tags extractor\<close>

lemma rowPairs_Cons: "rowPairs (row # rows) = rowPairs [row] @ rowPairs rows"
  by (simp add: rowPairs_def map_filter_simps split: option.splits)

lemma rowPairs_single_truthy:
  assumes "(k, v) \<in> set (rowPairs [row])"
  shows "truthy k \<and> truthy v"
  using assms by (auto simp: rowPairs_def map_filter_simps split: option.splits if_splits)

lemma rev_rowPairs_single: "rev (rowPairs [row]) = rowPairs [row]"
  by (simp add: rowPairs_def map_filter_simps split: option.splits)

lemma assign_lookup:
  "map_of (assign k' v obj) k
     = (if k = k' \<and> k' \<noteq> ''__proto__'' then Some v else map_of obj k)"
  by (simp add: assign_def update_conv')

lemma addTagRow_lookup:
  assumes "k \<noteq> ''__proto__''"
  shows "map_of (addTagRow row tgs) k = (map_of tgs ++ map_of (rowPairs [row])) k"
  using assms
  by (auto simp: addTagRow_def assign_lookup rowPairs_def map_filter_simps map_add_def
      split: option.splits)

lemma fold_addTagRow_lookup:
  assumes "k \<noteq> ''__proto__''"
  shows "map_of (fold addTagRow rows tgs) k
           = (map_of tgs ++ map_of (rev (rowPairs rows))) k"
proof (induction rows arbitrary: tgs)
  case Nil
  show ?case by (simp add: rowPairs_def map_filter_simps)
next
  case (Cons row rows)
  have "map_of (fold addTagRow (row # rows) tgs) k
          = (map_of (addTagRow row tgs) ++ map_of (rev (rowPairs rows))) k"
    by (simp add: Cons.IH)
  also have "\<dots> = ((map_of tgs ++ map_of (rowPairs [row])) ++ map_of (rev (rowPairs rows))) k"
    using addTagRow_lookup [OF assms, of row tgs]
    by (simp add: map_add_def split: option.splits)
  also have "\<dots> = (map_of tgs ++ map_of (rev (rowPairs (row # rows)))) k"
    by (simp add: rowPairs_Cons [of row rows] rev_rowPairs_single)
  finally show ?case .
qed

lemma addTagRow_truthy:
  assumes "\<And>k v. map_of tgs k = Some v \<Longrightarrow> truthy v"
    and "map_of (addTagRow row tgs) k = Some v"
  shows "truthy v"
  using assms
  by (auto simp: addTagRow_def assign_lookup split: option.splits if_splits)

lemma fold_addTagRow_truthy:
  assumes "\<And>k v. map_of tgs k = Some v \<Longrightarrow> truthy v"
    and "map_of (fold addTagRow rows tgs) k = Some v"
  shows "truthy v"
  using assms
proof (induction rows arbitrary: tgs)
  case Nil
  then show ?case by simp
next
  case (Cons row rows)
  have "\<And>k v. map_of (addTagRow row tgs) k = Some v \<Longrightarrow> truthy v"
    using addTagRow_truthy [of tgs row] Cons.prems(1) by blast
  moreover from Cons.prems(2) have "map_of (fold addTagRow rows (addTagRow row tgs)) k = Some v"
    by simp
  ultimately show ?case by (rule Cons.IH)
qed

text \<open>A highlight row leaves a stored tag alone, whatever its key.\<close>

lemma addHighlightRow_keeps:
  assumes "map_of tgs k = Some v" and "truthy v"
  shows "map_of (addHighlightRow row tgs) k = Some v"
  using assms
  by (auto simp: addHighlightRow_def assign_lookup truthy_member_def split: option.splits)

lemma fold_addHighlightRow_keeps:
  assumes "map_of tgs k = Some v" and "truthy v"
  shows "map_of (fold addHighlightRow rows tgs) k = Some v"
  using assms
proof (induction rows arbitrary: tgs)
  case Nil
  then show ?case by simp
next
  case (Cons row rows)
  from addHighlightRow_keeps [OF Cons.prems]
  have "map_of (addHighlightRow row tgs) k = Some v" .
  from Cons.IH [OF this Cons.prems(2)] show ?case by simp
qed

text \<open>A highlight row is stored under a key that is not bound and not inherited.\<close>

lemma addHighlightRow_lookup:
  assumes "\<not> inherited_name k" and "map_of tgs k = None"
  shows "map_of (addHighlightRow row tgs) k = map_of (rowPairs [row]) k"
proof -
  from assms(1) inherited_name_proto have "k \<noteq> ''__proto__''" by auto
  with assms show ?thesis
    by (auto simp: addHighlightRow_def assign_lookup truthy_member_def rowPairs_def
        map_filter_simps split: option.splits)
qed

lemma fold_addHighlightRow_lookup:
  assumes "\<not> inherited_name k" and "map_of tgs k = None"
  shows "map_of (fold addHighlightRow rows tgs) k = map_of (rowPairs rows) k"
  using assms(2)
proof (induction rows arbitrary: tgs)
  case Nil
  then show ?case by (simp add: rowPairs_def map_filter_simps)
next
  case (Cons row rows)
  have step: "map_of (addHighlightRow row tgs) k = map_of (rowPairs [row]) k"
    using assms(1) Cons.prems by (rule addHighlightRow_lookup)
  show ?case
  proof (cases "map_of (rowPairs [row]) k")
    case None
    with step have "map_of (addHighlightRow row tgs) k = None" by simp
    from Cons.IH [OF this] None show ?thesis
      by (simp add: rowPairs_Cons [of row rows] map_add_def)
  next
    case (Some v)
    then have "truthy v" using rowPairs_single_truthy [of k v row] by (auto dest: map_of_SomeD)
    moreover from step Some have "map_of (addHighlightRow row tgs) k = Some v" by simp
    ultimately have "map_of (fold addHighlightRow rows (addHighlightRow row tgs)) k = Some v"
      by (rule fold_addHighlightRow_keeps [rotated])
    with Some show ?thesis by (simp add: rowPairs_Cons [of row rows] map_add_def)
  qed
qed

text \<open>
  What holds of the merged mapping for the other keys: a key of a tag-tree row other than
  \<open>__proto__\<close> is bound to the value of the tag-tree rows (of the last such row with that
  key), whatever the highlight rows say, and a key that no tag-tree row has and that is not
  an inherited name is bound to what the highlight rows give for it (the first such row
  with that key). Only rows with a non-empty key and a non-empty value count.
\<close>

lemma merged_rows_other_keys:
  assumes "tagsSection doc = Some sec"
  shows "\<exists>tgs. fst (extractTags doc (clearTagsCache m)) = (if tgs = [] then None else Some tgs)
           \<and> (k \<noteq> ''__proto__'' \<and> k \<in> fst ` set (rowPairs (tagTreeRows sec)) \<longrightarrow>
                map_of tgs k = map_of (rev (rowPairs (tagTreeRows sec))) k
                \<and> map_of tgs k \<noteq> None)
           \<and> (\<not> inherited_name k \<and> k \<notin> fst ` set (rowPairs (tagTreeRows sec)) \<longrightarrow>
                map_of tgs k = map_of (rowPairs (highlightRows doc)) k)"
proof -
  let ?prim = "fold addTagRow (tagTreeRows sec) []"
  let ?tgs = "fold addHighlightRow (highlightRows doc) ?prim"
  have "readTags doc = (if ?tgs = [] then None else Some ?tgs)"
    using assms by (simp add: readTags_def Let_def)
  then have 1: "fst (extractTags doc (clearTagsCache m))
                  = (if ?tgs = [] then None else Some ?tgs)"
    by (simp add: extractTags_def clearTagsCache_def Let_def)
  have prim: "map_of ?prim k = map_of (rev (rowPairs (tagTreeRows sec))) k"
    if "k \<noteq> ''__proto__''"
    using fold_addTagRow_lookup [OF that, of "tagTreeRows sec" "[]"] by simp
  have truthy: "truthy v" if "map_of ?prim k = Some v" for v
    using fold_addTagRow_truthy [of "[]" "tagTreeRows sec" k v] that by simp
  have 2: "map_of ?tgs k = map_of (rev (rowPairs (tagTreeRows sec))) k
           \<and> map_of ?tgs k \<noteq> None"
    if "k \<noteq> ''__proto__''" and "k \<in> fst ` set (rowPairs (tagTreeRows sec))"
  proof -
    from that(2) have "k \<in> dom (map_of (rev (rowPairs (tagTreeRows sec))))"
      by (simp add: dom_map_of_conv_image_fst)
    with prim [OF that(1)] obtain v where v: "map_of ?prim k = Some v" by auto
    from fold_addHighlightRow_keeps [OF v truthy [OF v]] v prim [OF that(1)]
    show ?thesis by simp
  qed
  have 3: "map_of ?tgs k = map_of (rowPairs (highlightRows doc)) k"
    if "\<not> inherited_name k" and "k \<notin> fst ` set (rowPairs (tagTreeRows sec))"
  proof -
    from that(1) inherited_name_proto have "k \<noteq> ''__proto__''" by auto
    moreover from that(2) have "k \<notin> dom (map_of (rev (rowPairs (tagTreeRows sec))))"
      by (simp add: dom_map_of_conv_image_fst)
    ultimately have "map_of ?prim k = None" using prim by auto
    with that(1) show ?thesis by (rule fold_addHighlightRow_lookup)
  qed
  from 1 2 3 show ?thesis by blast
qed

text \<open>
  Claim C7. The claim fails on the code for the key \<open>__proto__\<close>. On a page where that key
  has the tag-tree row with the value \<open>primary\<close> and the highlight row with the value
  \<open>highlight\<close>, the key is in both row sets, and the result of \<open>extractTags\<close> after a clear
  is \<open>null\<close>; with a further tag-tree row for \<open>level\<close> the result binds \<open>level\<close> and nothing
  else. The value of the primary row is not in the resulting mapping: \<open>tags[key] = value\<close>
  on the object created by \<open>{}\<close> calls the inherited setter and stores nothing.
\<close>

theorem extractTags_proto_key:
  "tagsSection (protoPage []) = Some (protoSection [])
   \<and> rowPairs (tagTreeRows (protoSection [])) = [(''__proto__'', ''primary'')]
   \<and> rowPairs (highlightRows (protoPage [])) = [(''__proto__'', ''highlight'')]
   \<and> fst (extractTags (protoPage []) (clearTagsCache initialModule)) = None
   \<and> rowPairs (tagTreeRows (protoSection [tagRow ''tag-tree-row'' ''level'' ''error'']))
     = [(''__proto__'', ''primary''), (''level'', ''error'')]
   \<and> fst (extractTags (protoPage [tagRow ''tag-tree-row'' ''level'' ''error''])
            (clearTagsCache initialModule))
     = Some [(''level'', ''error'')]"
  by code_simp

subsection \<open>Values with a number marker\<close>

lemma parseFloat_42: "parseFloat ''42'' = Num 42"
  by code_simp

lemma to_double_not_NaN: "to_double n k \<noteq> NaN"
  by (simp add: to_double_def Let_def)

lemma digit_facts:
  assumes "is_digit d"
  shows "\<not> is_space d" and "d \<noteq> CHR ''-''" and "d \<noteq> CHR ''+''" and "d \<noteq> CHR ''I''"
  using assms by (auto simp: is_digit_def is_space_def)

lemma parseFloat_leading_digit:
  assumes "t \<noteq> []" and "is_digit (hd t)"
  shows "parseFloat t \<noteq> NaN"
proof -
  from assms obtain d r where t: "t = d # r" and d: "is_digit d"
    by (cases t) auto
  note digit_facts [OF d]
  then show ?thesis
    by (simp add: parseFloat_def Let_def t d to_double_not_NaN)
qed

lemma parseFloat_digits:
  assumes "t \<noteq> []" and "list_all is_digit t"
  shows "parseFloat t = to_double (digits_to_int t) 0"
proof -
  from assms obtain d r where t: "t = d # r" and d: "is_digit d"
    by (cases t) auto
  from assms(2) have all: "takeWhile is_digit t = t" "dropWhile is_digit t = []"
    by (simp_all add: list_all_iff)
  note digit_facts [OF d]
  then have "dropWhile is_space t = t" "hd t \<noteq> CHR ''-''" "hd t \<noteq> CHR ''+''"
    "take 8 t \<noteq> ''Infinity''"
    by (simp_all add: t)
  with assms(1) show ?thesis
    by (simp add: parseFloat_def Let_def exponent_part_def all)
qed

lemma digit_value_nonneg:
  assumes "is_digit c"
  shows "0 \<le> digit_value c"
  using assms by (auto simp: is_digit_def digit_value_def)

lemma digits_foldl_nonneg:
  assumes "0 \<le> a" and "list_all is_digit s"
  shows "0 \<le> foldl (\<lambda>a c. 10 * a + digit_value c) a s"
  using assms
proof (induction s arbitrary: a)
  case Nil
  then show ?case by simp
next
  case (Cons c s)
  from Cons.prems have "0 \<le> 10 * a + digit_value c"
    using digit_value_nonneg [of c] by simp
  moreover from Cons.prems have "list_all is_digit s" by simp
  ultimately have "0 \<le> foldl (\<lambda>a c. 10 * a + digit_value c) (10 * a + digit_value c) s"
    by (rule Cons.IH)
  then show ?case by simp
qed

lemma digits_to_int_nonneg:
  assumes "list_all is_digit s"
  shows "0 \<le> digits_to_int s"
  using digits_foldl_nonneg [OF _ assms, of 0] by (simp add: digits_to_int_def)

text \<open>An integer below \<open>2 ^ 53\<close> is a double.\<close>

lemma bit_length_le:
  assumes "n < 2 ^ k"
  shows "bit_length n \<le> int k"
  using assms
proof (induction k arbitrary: n)
  case 0
  then show ?case by (simp add: bit_length.simps)
next
  case (Suc k)
  from Suc.prems have "n div 2 < 2 ^ k" by simp
  from Suc.IH [OF this] show ?case by (simp add: bit_length.simps [of n])
qed

lemma bit_length_1: "bit_length 1 = 1"
  by (simp add: bit_length.simps [of 1] bit_length.simps [of 0])

lemma round_half_even_1: "round_half_even a 1 = a"
  by (simp add: round_half_even_def)

lemma to_double_small:
  assumes "0 \<le> n" and "n < 2 ^ 53"
  shows "to_double n 0 = Num (of_int n)"
proof (cases "n = 0")
  case True
  then show ?thesis by (simp add: to_double_def)
next
  case False
  define e where "e = floor_log2 n 1"
  define q where "q = max e (- 1022) - 52"
  have "bit_length n \<le> 53" using bit_length_le [OF assms(2)] by simp
  then have "e \<le> 52" by (simp add: e_def floor_log2_def Let_def bit_length_1)
  then have q: "q \<le> 0" and e: "\<not> 1024 \<le> e" by (simp_all add: q_def)
  have "(2::int) ^ 53 \<le> 2 ^ 1024" by (rule power_increasing) simp_all
  with assms(2) have small: "\<not> 2 ^ 1024 \<le> n" by simp
  have "to_double n 0
          = (if q \<ge> 0 \<and> round_half_even n (2 ^ nat q) * 2 ^ nat q \<ge> 2 ^ 1024
             then PosInfinity
             else Num (if q \<ge> 0 then of_int (round_half_even n (2 ^ nat q) * 2 ^ nat q)
                       else of_int (round_half_even (n * 2 ^ nat (- q)) 1)
                            / 2 ^ nat (- q)))"
    using False e by (simp add: to_double_def Let_def e_def [symmetric] q_def [symmetric])
  also have "\<dots> = Num (of_int n)"
  proof (cases "q = 0")
    case True
    with small show ?thesis by (simp add: round_half_even_1)
  next
    case False
    with q have "q < 0" by simp
    then show ?thesis by (simp add: round_half_even_1)
  qed
  finally show ?thesis .
qed

lemma extractStructuredValue_number:
  assumes "querySelector [[Attr ''data-sentry-component'' ''CollapsibleValue'']] element = None"
    and "querySelector [[Attr ''data-test-id'' ''value-number'']] element = Some numberEl"
  shows "extractStructuredValue element
           = (if parseFloat (trim (textContent numberEl)) = NaN
              then JString (trim (textContent numberEl))
              else JNumber (parseFloat (trim (textContent numberEl))))"
  using assms by (simp add: extractStructuredValue_def Let_def)

lemma parseValueElement_number:
  assumes "getAttribute valueEl ''data-test-id'' = Some ''value-number''"
  shows "parseValueElement valueEl
           = (if parseFloat (trim (textContent valueEl)) = NaN
              then JString (trim (textContent valueEl))
              else JNumber (parseFloat (trim (textContent valueEl))))"
  using assms by (simp add: parseValueElement_def Let_def)

text \<open>
  Claim C8, as amended. Take an element without a collapsible value inside, whose first
  \<open>value-number\<close> marker has the trimmed text \<open>t\<close>. For \<open>t = 42\<close> the extractor returns the
  number 42. When \<open>parseFloat t\<close> is \<open>NaN\<close>, that is when \<open>t\<close> does not begin with a decimal
  literal, it returns \<open>t\<close> as a string. Otherwise it returns the number \<open>parseFloat t\<close>, the
  double nearest to the value of the longest decimal literal that \<open>t\<close> begins with, which
  is \<open>Infinity\<close> for a value beyond the doubles; in particular a text that begins with a
  digit gives a number, whatever follows the digits, and a text of digits only that denotes
  an integer below \<open>2 ^ 53\<close> gives that integer. The result is never \<open>NaN\<close>, and
  \<open>parseValueElement\<close> gives the same result on the marker.
\<close>

theorem value_number_marker:
  assumes "querySelector [[Attr ''data-sentry-component'' ''CollapsibleValue'']] element = None"
    and "querySelector [[Attr ''data-test-id'' ''value-number'']] element = Some numberEl"
    and "t = trim (textContent numberEl)"
  shows "(t = ''42'' \<longrightarrow> extractStructuredValue element = JNumber (Num 42))
       \<and> (parseFloat t = NaN \<longrightarrow> extractStructuredValue element = JString t)
       \<and> (parseFloat t \<noteq> NaN \<longrightarrow> extractStructuredValue element = JNumber (parseFloat t))
       \<and> (t \<noteq> [] \<and> is_digit (hd t)
            \<longrightarrow> (\<exists>n. extractStructuredValue element = JNumber n \<and> n \<noteq> NaN))
       \<and> (t \<noteq> [] \<and> list_all is_digit t \<and> digits_to_int t < 2 ^ 53
            \<longrightarrow> extractStructuredValue element = JNumber (Num (of_int (digits_to_int t))))
       \<and> extractStructuredValue element \<noteq> JNumber NaN
       \<and> parseValueElement numberEl = extractStructuredValue element"
proof -
  have e: "extractStructuredValue element
           = (if parseFloat t = NaN then JString t else JNumber (parseFloat t))"
    using extractStructuredValue_number [OF assms(1,2)] assms(3) by simp
  from assms(2) have "matches [[Attr ''data-test-id'' ''value-number'']] numberEl"
    by (auto simp: querySelector_def find_Some_iff)
  then have "getAttribute numberEl ''data-test-id'' = Some ''value-number''"
    by (simp add: matches_def)
  from parseValueElement_number [OF this] assms(3)
  have p: "parseValueElement numberEl
           = (if parseFloat t = NaN then JString t else JNumber (parseFloat t))"
    by simp
  have "t = ''42'' \<longrightarrow> extractStructuredValue element = JNumber (Num 42)"
    unfolding e by (simp add: parseFloat_42)
  moreover have "t \<noteq> [] \<and> is_digit (hd t)
                   \<longrightarrow> (\<exists>n. extractStructuredValue element = JNumber n \<and> n \<noteq> NaN)"
    unfolding e using parseFloat_leading_digit [of t] by auto
  moreover have "t \<noteq> [] \<and> list_all is_digit t \<and> digits_to_int t < 2 ^ 53
            \<longrightarrow> extractStructuredValue element = JNumber (Num (of_int (digits_to_int t)))"
  proof (intro impI, elim conjE)
    assume t: "t \<noteq> []" and digits: "list_all is_digit t" and small: "digits_to_int t < 2 ^ 53"
    from digits have "0 \<le> digits_to_int t" by (rule digits_to_int_nonneg)
    from to_double_small [OF this small] parseFloat_digits [OF t digits]
    show "extractStructuredValue element = JNumber (Num (of_int (digits_to_int t)))"
      unfolding e by simp
  qed
  ultimately show ?thesis using e p by simp
qed

theorem value_number_marker_witness:
  "querySelector [[Attr ''data-sentry-component'' ''CollapsibleValue'']] (numberCell '' 42 '')
     = None
   \<and> querySelector [[Attr ''data-test-id'' ''value-number'']] (numberCell '' 42 '')
     = Some (Element ''span'' [(''data-test-id'', ''value-number'')] [Text '' 42 ''])
   \<and> ''42'' = trim (textContent
                     (Element ''span'' [(''data-test-id'', ''value-number'')] [Text '' 42 '']))
   \<and> extractStructuredValue (numberCell '' 42 '') = JNumber (Num 42)
   \<and> extractStructuredValue (numberCell '' 42 '') \<noteq> JNumber NaN
   \<and> parseValueElement (Element ''span'' [(''data-test-id'', ''value-number'')] [Text '' 42 ''])
     = JNumber (Num 42)
   \<and> extractStructuredValue (numberCell ''9007199254740993'')
     = JNumber (Num 9007199254740992)
   \<and> extractStructuredValue (numberCell ''1e400'') = JNumber PosInfinity
   \<and> extractStructuredValue (numberCell ''-1e400'') = JNumber NegInfinity
   \<and> extractStructuredValue (numberCell ''0.5'') = JNumber (Num (1 / 2))
   \<and> extractStructuredValue (numberCell ''n/a'') = JString ''n/a''"
proof -
  let ?el = "Element ''span'' [(''data-test-id'', ''value-number'')] [Text '' 42 '']"
  have 1: "querySelector [[Attr ''data-sentry-component'' ''CollapsibleValue'']]
             (numberCell '' 42 '') = None"
    by code_simp
  have 2: "querySelector [[Attr ''data-test-id'' ''value-number'']] (numberCell '' 42 '')
             = Some ?el"
    by code_simp
  have 3: "''42'' = trim (textContent ?el)"
    by code_simp
  have 4: "extractStructuredValue (numberCell ''9007199254740993'')
             = JNumber (Num 9007199254740992)"
    by code_simp
  have 5: "extractStructuredValue (numberCell ''1e400'') = JNumber PosInfinity"
    by code_simp
  have 6: "extractStructuredValue (numberCell ''-1e400'') = JNumber NegInfinity"
    by code_simp
  have 7: "extractStructuredValue (numberCell ''0.5'') = JNumber (Num (1 / 2))"
    by code_simp
  have 8: "extractStructuredValue (numberCell ''n/a'') = JString ''n/a''"
    by code_simp
  from value_number_marker [OF 1 2 3] 1 2 3 4 5 6 7 8 show ?thesis by simp
qed

text \<open>
  Claim C8 as stated fails for the marker text \<open>12abc\<close>, which is not numeric and for which
  the extractor returns the number 12, not the text; and an element with a collapsible
  object inside is parsed as that object, although a number marker with the text \<open>42\<close> is
  the first number marker below it.
\<close>

theorem value_number_marker_counterexample:
  "querySelector [[Attr ''data-test-id'' ''value-number'']] (numberCell ''12abc'')
     = Some (Element ''span'' [(''data-test-id'', ''value-number'')] [Text ''12abc''])
   \<and> trim (textContent
             (Element ''span'' [(''data-test-id'', ''value-number'')] [Text ''12abc'']))
     = ''12abc''
   \<and> extractStructuredValue (numberCell ''12abc'') = JNumber (Num 12)
   \<and> extractStructuredValue (numberCell ''12abc'') \<noteq> JString ''12abc''
   \<and> querySelector [[Attr ''data-test-id'' ''value-number'']] objectCell
     = Some (Element ''span'' [(''data-test-id'', ''value-number'')] [Text ''42''])
   \<and> extractStructuredValue objectCell = JObject [(''count'', JNumber (Num 42))]
   \<and> extractStructuredValue objectCell \<noteq> JNumber (Num 42)"
  by code_simp

end
